theory Spec2Isabelle
  imports Main "HOL-Library.Word"
begin

section \<open>Attributes, spans and the world the handlers run in\<close>

text \<open>
  The service is a pair of HTTP handlers (\<^verbatim>\<open>handlers/order.go\<close>,
  \<^verbatim>\<open>handlers/inventory.go\<close>) and a logging package (\<^verbatim>\<open>logging/logging.go\<close>).
  Everything the handlers touch outside their own locals is a field of the record
  \<open>world\<close>: the random generator, the clock advanced by \<^verbatim>\<open>time.Sleep\<close>, the
  sequence of draws and sleeps performed, the store of spans, the measurements of the
  counter \<^verbatim>\<open>orders_processed_total\<close>, the console of the standard logger and the files
  on disk. Go's \<^verbatim>\<open>int\<close> is modelled by \<open>int\<close>: every integer of the
  handlers is a draw below 1000 plus a constant, far from the 64-bit bounds.
\<close>

text \<open>\<^verbatim>\<open>codes.Code\<close>: the status of a span.\<close>

datatype Code = Unset | Error | Ok

text \<open>
  \<^verbatim>\<open>attribute.Value\<close> with its type tag. A float is kept as its 64-bit pattern;
  \<open>OTHER\<close> stands for the remaining tags (invalid and the slice types), whose
  \<^verbatim>\<open>AsString\<close> is the empty string.
\<close>

datatype Value = STRING string | INT64 int | BOOL bool | FLOAT64 "64 word" | OTHER

type_synonym KeyValue = "string \<times> Value"

definition attribute_String :: "string \<Rightarrow> string \<Rightarrow> KeyValue" where
  "attribute_String k v = (k, STRING v)"

definition attribute_Int :: "string \<Rightarrow> int \<Rightarrow> KeyValue" where
  "attribute_Int k v = (k, INT64 v)"

text \<open>
  \<^verbatim>\<open>trace.SpanContext\<close>: the identifiers are the numbers their bytes encode, so the
  all-zero (invalid) identifier is 0.
\<close>

record SpanContext =
  TraceID :: nat
  SpanID :: nat

definition IsValid :: "SpanContext \<Rightarrow> bool" where
  "IsValid sc = (TraceID sc \<noteq> 0 \<and> SpanID sc \<noteq> 0)"

definition noopSpanContext :: SpanContext where
  "noopSpanContext = \<lparr>TraceID = 0, SpanID = 0\<rparr>"

fun hex_digits :: "nat \<Rightarrow> nat \<Rightarrow> string" where
  "hex_digits 0 n = []"
| "hex_digits (Suc k) n = hex_digits k (n div 16) @ [''0123456789abcdef'' ! (n mod 16)]"

text \<open>\<^verbatim>\<open>TraceID.String\<close> and \<^verbatim>\<open>SpanID.String\<close>: 16 and 8 bytes in lowercase hex.\<close>

definition TraceID_String :: "nat \<Rightarrow> string" where
  "TraceID_String t = hex_digits 32 t"

definition SpanID_String :: "nat \<Rightarrow> string" where
  "SpanID_String s = hex_digits 16 s"

record Event =
  event_name :: string
  event_attrs :: "KeyValue list"

record Span =
  span_name :: string
  parent_id :: "nat option"
  span_context :: SpanContext
  status :: Code
  status_message :: string
  recorded_error :: "string option"
  events :: "Event list"
  start_time :: int
  end_time :: "int option"

text \<open>
  A \<^verbatim>\<open>trace.Span\<close> value is a reference: \<open>Some h\<close> is the span at index \<open>h\<close> of the
  store, \<open>None\<close> the no-op span that \<^verbatim>\<open>trace.SpanFromContext\<close> returns for a context
  without a span. A \<^verbatim>\<open>context.Context\<close> carries at most one span, so it is modelled by
  the reference it carries.
\<close>

type_synonym SpanRef = "nat option"
type_synonym Context = "nat option"

text \<open>\<^verbatim>\<open>type LogLevel string\<close> and its two constants.\<close>

type_synonym LogLevel = string

definition LevelInfo :: LogLevel where
  "LevelInfo = ''INFO''"

definition LevelError :: LogLevel where
  "LevelError = ''ERROR''"

text \<open>
  A line of the standard logger: the format string of the \<^verbatim>\<open>log.Printf\<close> call and
  its arguments, not rendered.
\<close>

datatype printf_arg = ArgString string | ArgAttrs "KeyValue list"

type_synonym console_line = "string \<times> printf_arg list"

text \<open>
  The values of a \<^verbatim>\<open>map[string]any\<close> built by \<^verbatim>\<open>StructuredLogger.write\<close>. The
  timestamp is kept as the instant it renders (\<open>AnyTime\<close>).
\<close>

datatype any = AnyString string | AnyInt64 int | AnyBool bool | AnyFloat64 "64 word"
  | AnyTime int | AnyMap "string \<Rightarrow> any option"

type_synonym entry = "string \<Rightarrow> any option"

text \<open>
  \<^verbatim>\<open>StructuredLogger\<close>: \<open>logger_f\<close> (the field \<^verbatim>\<open>f\<close>) is the path of the open file, \<open>encoder\<close> the path the
  encoder writes to; \<open>None\<close> is Go's nil. The mutex is not modelled: requests are
  run one after the other.
\<close>

record StructuredLogger =
  logger_f :: "string option"
  encoder :: "string option"

text \<open>
  What the handler did with the generator and the clock, in the order it did it:
  \<open>Draw n v\<close> is a call \<^verbatim>\<open>rand.IntN(n)\<close> that returned \<open>v\<close>, \<open>Sleep d\<close> a sleep of
  \<open>d\<close> milliseconds.
\<close>

datatype effect = Draw int int | Sleep int

text \<open>
  \<open>rand_src\<close> is the sequence of raw values of the generator and \<open>rand_pos\<close> the
  number of values consumed. \<open>ordersProcessedCounter\<close> holds the measurements the
  counter has recorded, each with its \<^verbatim>\<open>status\<close> label. \<open>meter_error\<close> is the error
  the meter answers the creation of the counter with, \<open>open_error\<close> the error the
  system answers the opening of a path with, and \<open>disk_ok\<close> says whether the disk
  takes writes.
\<close>

record world =
  rand_src :: "nat \<Rightarrow> int"
  rand_pos :: nat
  effects :: "effect list"
  clock :: int
  spans :: "Span list"
  id_seq :: nat
  ordersProcessedCounter :: "(string \<times> int) list"
  console :: "console_line list"
  env :: "string \<Rightarrow> string"
  meter_error :: "string option"
  open_error :: "string \<Rightarrow> string option"
  disk_ok :: bool
  files :: "string \<Rightarrow> entry list option"
  JSONLogger :: StructuredLogger

text \<open>
  The response as \<^verbatim>\<open>http.ResponseWriter\<close> builds it. \<open>write_error\<close> is the error
  the connection answers a write with (\<open>None\<close> for a healthy connection).
\<close>

datatype jvalue = JString string | JInt int

datatype body_part = Text string | JSON "(string \<times> jvalue) list"

record ResponseWriter =
  header :: "string \<Rightarrow> string option"
  status_code :: "int option"
  body :: "body_part list"
  write_error :: "string option"

record Request =
  Context :: Context

record OrderResponse =
  Status :: string
  Message :: string

record InventoryResponse = OrderResponse +
  DelayMS :: int

section \<open>The standard library as the handlers use it\<close>

text \<open>
  \<^verbatim>\<open>rand.IntN(n)\<close>: the next raw value of the generator, reduced to \<open>[0, n)\<close>. The
  call is recorded in \<open>effects\<close> with its bound. (Go panics for \<open>n \<le> 0\<close>; every call in
  the handlers passes a positive literal.)
\<close>

definition rand_IntN :: "int \<Rightarrow> world \<Rightarrow> int \<times> world" where
  "rand_IntN n w =
     (let v = rand_src w (rand_pos w) mod n
      in (v, w\<lparr>rand_pos := Suc (rand_pos w), effects := effects w @ [Draw n v]\<rparr>))"

text \<open>\<^verbatim>\<open>time.Sleep\<close> of \<open>d\<close> milliseconds; a duration that is not positive returns at once.\<close>

definition time_Sleep :: "int \<Rightarrow> world \<Rightarrow> world" where
  "time_Sleep d w = w\<lparr>clock := clock w + max 0 d, effects := effects w @ [Sleep d]\<rparr>"

definition log_Printf :: "string \<Rightarrow> printf_arg list \<Rightarrow> world \<Rightarrow> world" where
  "log_Printf fmt args w = w\<lparr>console := console w @ [(fmt, args)]\<rparr>"

text \<open>\<^verbatim>\<open>ResponseWriter.WriteHeader\<close>: only the first call sets the status.\<close>

definition WriteHeader :: "int \<Rightarrow> ResponseWriter \<Rightarrow> ResponseWriter" where
  "WriteHeader c rw = (if status_code rw = None then rw\<lparr>status_code := Some c\<rparr> else rw)"

text \<open>
  \<^verbatim>\<open>ResponseWriter.Write\<close>: the first write sends status 200 when none was set; on a
  failing connection nothing is appended and the error is returned.
\<close>

definition Write :: "body_part \<Rightarrow> ResponseWriter \<Rightarrow> string option \<times> ResponseWriter" where
  "Write b rw =
     (let rw1 = WriteHeader 200 rw
      in case write_error rw1 of
           Some e \<Rightarrow> (Some e, rw1)
         | None \<Rightarrow> (None, rw1\<lparr>body := body rw1 @ [b]\<rparr>))"

definition Header_Set :: "string \<Rightarrow> string \<Rightarrow> ResponseWriter \<Rightarrow> ResponseWriter" where
  "Header_Set k v rw = rw\<lparr>header := (header rw)(k \<mapsto> v)\<rparr>"

text \<open>
  \<^verbatim>\<open>http.Error\<close>: plain-text headers, the status, then the message and a newline;
  the result of the write is dropped.
\<close>

definition http_Error :: "ResponseWriter \<Rightarrow> string \<Rightarrow> int \<Rightarrow> ResponseWriter" where
  "http_Error rw msg c =
     (let rw1 = Header_Set ''Content-Type'' ''text/plain; charset=utf-8'' rw;
          rw2 = Header_Set ''X-Content-Type-Options'' ''nosniff'' rw1;
          rw3 = WriteHeader c rw2
      in snd (Write (Text (msg @ [CHR 0x0A])) rw3))"

definition StatusInternalServerError :: int where
  "StatusInternalServerError = 500"

definition encode_OrderResponse :: "OrderResponse \<Rightarrow> body_part" where
  "encode_OrderResponse resp =
     JSON [(''status'', JString (Status resp)), (''message'', JString (Message resp))]"

definition encode_InventoryResponse :: "InventoryResponse \<Rightarrow> body_part" where
  "encode_InventoryResponse resp =
     JSON [(''status'', JString (Status resp)), (''message'', JString (Message resp)),
           (''delay_ms'', JInt (DelayMS resp))]"

section \<open>The tracing and metrics interface\<close>

text \<open>
  Modelled from the spec: the span and counter operations of the OpenTelemetry library,
  which is not part of the repository (design sections 3, 4.1 and 4.3). A span is
  recording while it has valid identifiers and no end time; \<open>SetStatus\<close> overwrites,
  \<open>RecordError\<close> attaches the failure, \<open>AddEvent\<close> appends to the event list, \<open>End\<close> stamps
  the end time once; an operation on the no-op span or on a span that is not recording
  changes nothing.
\<close>

definition SpanFromContext :: "Context \<Rightarrow> SpanRef" where
  "SpanFromContext ctx = ctx"

definition Span_SpanContext :: "SpanRef \<Rightarrow> world \<Rightarrow> SpanContext" where
  "Span_SpanContext sp w =
     (case sp of
        None \<Rightarrow> noopSpanContext
      | Some h \<Rightarrow> if h < length (spans w) then span_context (spans w ! h) else noopSpanContext)"

definition recording :: "Span \<Rightarrow> bool" where
  "recording s = (IsValid (span_context s) \<and> end_time s = None)"

definition span_update :: "SpanRef \<Rightarrow> (Span \<Rightarrow> Span) \<Rightarrow> world \<Rightarrow> world" where
  "span_update sp g w =
     (case sp of
        None \<Rightarrow> w
      | Some h \<Rightarrow>
          if h < length (spans w) \<and> recording (spans w ! h)
          then w\<lparr>spans := (spans w)[h := g (spans w ! h)]\<rparr>
          else w)"

definition Span_SetStatus :: "SpanRef \<Rightarrow> Code \<Rightarrow> string \<Rightarrow> world \<Rightarrow> world" where
  "Span_SetStatus sp c msg w = span_update sp (\<lambda>s. s\<lparr>status := c, status_message := msg\<rparr>) w"

definition Span_RecordError :: "SpanRef \<Rightarrow> string \<Rightarrow> world \<Rightarrow> world" where
  "Span_RecordError sp err w = span_update sp (\<lambda>s. s\<lparr>recorded_error := Some err\<rparr>) w"

definition Span_AddEvent :: "SpanRef \<Rightarrow> string \<Rightarrow> KeyValue list \<Rightarrow> world \<Rightarrow> world" where
  "Span_AddEvent sp nm attrs w =
     span_update sp (\<lambda>s. s\<lparr>events := events s @ [\<lparr>event_name = nm, event_attrs = attrs\<rparr>]\<rparr>) w"

definition Span_End :: "SpanRef \<Rightarrow> world \<Rightarrow> world" where
  "Span_End sp w = span_update sp (\<lambda>s. s\<lparr>end_time := Some (clock w)\<rparr>) w"

text \<open>
  Modelled from the spec: \<open>StartSpan\<close> of the tracing library (design section 4.1). It
  makes a new span whose parent is the span of the context (none for a root, which
  opens a trace of its own) and returns a new context carrying the new span; the
  identifiers are fresh and not zero. Tracing is available whenever a handler runs:
  \<^verbatim>\<open>main\<close> serves only after \<^verbatim>\<open>InitTracer\<close> has installed the tracer provider.
\<close>

definition new_span :: "Context \<Rightarrow> string \<Rightarrow> world \<Rightarrow> Span" where
  "new_span ctx nm w =
     (let psc = Span_SpanContext (SpanFromContext ctx) w;
          sid = id_seq w + 1;
          tid = (if IsValid psc then TraceID psc else id_seq w + 2)
      in \<lparr>span_name = nm,
          parent_id = (if IsValid psc then Some (SpanID psc) else None),
          span_context = \<lparr>TraceID = tid, SpanID = sid\<rparr>,
          status = Unset, status_message = [], recorded_error = None, events = [],
          start_time = clock w, end_time = None\<rparr>)"

definition tracer_Start :: "Context \<Rightarrow> string \<Rightarrow> world \<Rightarrow> (Context \<times> SpanRef) \<times> world" where
  "tracer_Start ctx nm w =
     (let h = length (spans w)
      in ((Some h, Some h), w\<lparr>spans := spans w @ [new_span ctx nm w], id_seq := id_seq w + 2\<rparr>))"

text \<open>
  Modelled from the spec: \<open>Add\<close> of the metrics library (design section 4.3). It records
  one measurement of \<open>delta\<close> under the label; the context only attributes it. The
  total of a label is the sum of its measurements.
\<close>

definition Counter_Add :: "Context \<Rightarrow> int \<Rightarrow> string \<Rightarrow> world \<Rightarrow> world" where
  "Counter_Add ctx delta label w =
     w\<lparr>ordersProcessedCounter := ordersProcessedCounter w @ [(label, delta)]\<rparr>"

definition counter_total :: "string \<Rightarrow> world \<Rightarrow> int" where
  "counter_total label w =
     sum_list (map snd (filter (\<lambda>m. fst m = label) (ordersProcessedCounter w)))"

section \<open>Package logging\<close>

definition Logger_log :: "Context \<Rightarrow> LogLevel \<Rightarrow> string \<Rightarrow> KeyValue list \<Rightarrow> world \<Rightarrow> world" where
  "Logger_log ctx level message attrs w =
     (let span = SpanFromContext ctx
      in if \<not> IsValid (Span_SpanContext span w)
         then log_Printf ''[%s] %s %v'' [ArgString level, ArgString message, ArgAttrs attrs] w
         else
           (let allAttrs = [];
                allAttrs = allAttrs @ [attribute_String ''log.level'' level];
                allAttrs = allAttrs @ [attribute_String ''log.message'' message];
                allAttrs = allAttrs @ attrs
            in Span_AddEvent span ''log'' allAttrs w))"

definition Logger_Info :: "Context \<Rightarrow> string \<Rightarrow> KeyValue list \<Rightarrow> world \<Rightarrow> world" where
  "Logger_Info ctx message attrs w = Logger_log ctx LevelInfo message attrs w"

definition Logger_Error :: "Context \<Rightarrow> string \<Rightarrow> KeyValue list \<Rightarrow> world \<Rightarrow> world" where
  "Logger_Error ctx message attrs w = Logger_log ctx LevelError message attrs w"

text \<open>
  \<^verbatim>\<open>os.OpenFile\<close> with create and append: a missing file is created empty;
  \<open>open_error\<close> is the error the system answers for a path it cannot open.
\<close>

definition os_OpenFile :: "string \<Rightarrow> world \<Rightarrow> (string + string) \<times> world" where
  "os_OpenFile path w =
     (case open_error w path of
        Some e \<Rightarrow> (Inl e, w)
      | None \<Rightarrow>
          (Inr path,
           (case files w path of
              None \<Rightarrow> w\<lparr>files := (files w)(path \<mapsto> [])\<rparr>
            | Some _ \<Rightarrow> w)))"

definition NewStructured :: "world \<Rightarrow> StructuredLogger \<times> world" where
  "NewStructured w =
     (let path = env w ''APP_LOG_FILE'';
          path = (if path = [] then ''app.log'' else path)
      in case os_OpenFile path w of
           (Inl err, w1) \<Rightarrow>
             (\<lparr>logger_f = None, encoder = None\<rparr>,
              log_Printf ''[WARN] failed to open log file %q: %v''
                [ArgString path, ArgString err] w1)
         | (Inr fl, w1) \<Rightarrow> (\<lparr>logger_f = Some fl, encoder = Some fl\<rparr>, w1))"

text \<open>The package variable \<^verbatim>\<open>JSONLogger = NewStructured()\<close>, set when the process starts.\<close>

definition logging_init :: "world \<Rightarrow> world" where
  "logging_init w = (case NewStructured w of (l, w1) \<Rightarrow> w1\<lparr>JSONLogger := l\<rparr>)"

fun attrsToMap_loop :: "(string \<Rightarrow> any option) \<Rightarrow> KeyValue list \<Rightarrow> (string \<Rightarrow> any option)" where
  "attrsToMap_loop m [] = m"
| "attrsToMap_loop m (a # as) =
     attrsToMap_loop
       (case snd a of
          STRING s \<Rightarrow> m(fst a \<mapsto> AnyString s)
        | INT64 i \<Rightarrow> m(fst a \<mapsto> AnyInt64 i)
        | BOOL b \<Rightarrow> m(fst a \<mapsto> AnyBool b)
        | FLOAT64 x \<Rightarrow> m(fst a \<mapsto> AnyFloat64 x)
        | OTHER \<Rightarrow> m(fst a \<mapsto> AnyString [])) as"

definition attrsToMap :: "KeyValue list \<Rightarrow> (string \<Rightarrow> any option)" where
  "attrsToMap attrs = attrsToMap_loop Map.empty attrs"

text \<open>
  A \<^verbatim>\<open>float64\<close> is finite unless the 11 bits of its exponent are all set (NaN and the
  two infinities).
\<close>

definition float64_finite :: "64 word \<Rightarrow> bool" where
  "float64_finite x = (take_bit 11 (drop_bit 52 x) \<noteq> (2047 :: 64 word))"

text \<open>
  What \<^verbatim>\<open>encoding/json\<close> can marshal of an entry: it refuses a float that is NaN or
  infinite, and the only floats of an entry are values of its attributes map. The keys
  of that map are given beside the entry, since a HOL function has no domain to
  enumerate.
\<close>

definition json_supported :: "string list \<Rightarrow> entry \<Rightarrow> bool" where
  "json_supported keys e =
     (case e ''attributes'' of
        Some (AnyMap m) \<Rightarrow>
          list_all (\<lambda>k. case m k of Some (AnyFloat64 x) \<Rightarrow> float64_finite x | _ \<Rightarrow> True) keys
      | _ \<Rightarrow> True)"

text \<open>
  \<^verbatim>\<open>Encoder.Encode\<close> on the log file appends one line. It fails, writing nothing, when
  the entry cannot be marshalled or the disk refuses the write; its error is dropped by
  the caller, so a failed call leaves the file as it was.
\<close>

definition file_Encode :: "string \<Rightarrow> string list \<Rightarrow> entry \<Rightarrow> world \<Rightarrow> world" where
  "file_Encode path keys e w =
     (if json_supported keys e \<and> disk_ok w
      then w\<lparr>files := (files w)(path \<mapsto>
                (case files w path of None \<Rightarrow> [] | Some ls \<Rightarrow> ls) @ [e])\<rparr>
      else w)"

definition StructuredLogger_write ::
  "StructuredLogger \<Rightarrow> Context \<Rightarrow> LogLevel \<Rightarrow> string \<Rightarrow> KeyValue list \<Rightarrow> world \<Rightarrow> world" where
  "StructuredLogger_write l ctx level message attrs w =
     (case encoder l of
        None \<Rightarrow> log_Printf ''[%s] %s %v'' [ArgString level, ArgString message, ArgAttrs attrs] w
      | Some enc \<Rightarrow>
          (let span = SpanFromContext ctx;
               sc = Span_SpanContext span w;
               entry = [''timestamp'' \<mapsto> AnyTime (clock w),
                        ''level'' \<mapsto> AnyString level,
                        ''message'' \<mapsto> AnyString message,
                        ''attributes'' \<mapsto> AnyMap (attrsToMap attrs)];
               entry = (if IsValid sc
                        then entry(''trace_id'' \<mapsto> AnyString (TraceID_String (TraceID sc)),
                                   ''span_id'' \<mapsto> AnyString (SpanID_String (SpanID sc)))
                        else entry)
           in file_Encode enc (map fst attrs) entry w))"

definition StructuredLogger_Info ::
  "StructuredLogger \<Rightarrow> Context \<Rightarrow> string \<Rightarrow> KeyValue list \<Rightarrow> world \<Rightarrow> world" where
  "StructuredLogger_Info l ctx message attrs w = StructuredLogger_write l ctx LevelInfo message attrs w"

definition StructuredLogger_Error ::
  "StructuredLogger \<Rightarrow> Context \<Rightarrow> string \<Rightarrow> KeyValue list \<Rightarrow> world \<Rightarrow> world" where
  "StructuredLogger_Error l ctx message attrs w = StructuredLogger_write l ctx LevelError message attrs w"

section \<open>Package handlers\<close>

definition statusSuccess :: string where
  "statusSuccess = ''success''"

definition statusFailure :: string where
  "statusFailure = ''failure''"

text \<open>
  \<^verbatim>\<open>init\<close>: the counter is created when the package is loaded; \<^verbatim>\<open>log.Fatalf\<close> ends the
  process with its message (\<open>Inl\<close>) when the creation fails.
\<close>

definition handlers_init :: "world \<Rightarrow> string + world" where
  "handlers_init w =
     (case meter_error w of
        Some err \<Rightarrow> Inl (''failed to create orders_processed_total counter: '' @ err)
      | None \<Rightarrow> Inr w)"

text \<open>
  Package initialisation in Go's order: \<^verbatim>\<open>logging\<close>, which \<^verbatim>\<open>handlers\<close> imports, then
  \<^verbatim>\<open>handlers\<close>.
\<close>

definition package_init :: "world \<Rightarrow> string + world" where
  "package_init w = handlers_init (logging_init w)"

text \<open>
  \<^verbatim>\<open>handleRequestError\<close>: both loggers, the failure metric, then the error and the
  status on \<open>span\<close>, then the status on the span that \<open>ctx\<close> carries.
\<close>

definition handleRequestError ::
  "Context \<Rightarrow> SpanRef \<Rightarrow> string \<Rightarrow> string \<Rightarrow> string \<Rightarrow> world \<Rightarrow> world" where
  "handleRequestError ctx span message err stage w =
     (let w1 = Logger_Error ctx message
                 [attribute_String ''error.stage'' stage, attribute_String ''error.reason'' err] w;
          w2 = StructuredLogger_Error (JSONLogger w1) ctx message
                 [attribute_String ''error.stage'' stage, attribute_String ''error.reason'' err] w1;
          w3 = Counter_Add ctx 1 statusFailure w2;
          w4 = Span_RecordError span err w3;
          w5 = Span_SetStatus span Error message w4
      in Span_SetStatus (SpanFromContext ctx) Error message w5)"

definition handleDBError :: "ResponseWriter \<Rightarrow> Request \<Rightarrow> world \<Rightarrow> ResponseWriter \<times> world" where
  "handleDBError rw r w =
     (let ctx = Context r;
          ((dbCtx, dbSpan), w1) = tracer_Start ctx ''db.insert_order'' w;
          (d, w2) = rand_IntN 40 w1;
          w3 = time_Sleep (d + 10) w2;
          err = ''simulated database constraint violation'';
          w4 = handleRequestError dbCtx dbSpan ''database operation failed'' err ''database'' w3;
          w5 = Span_End dbSpan w4
      in (http_Error rw ''Internal Server Error'' StatusInternalServerError, w5))"

definition handlePaymentError :: "ResponseWriter \<Rightarrow> Request \<Rightarrow> world \<Rightarrow> ResponseWriter \<times> world" where
  "handlePaymentError rw r w =
     (let ctx = Context r;
          ((paymentCtx, paymentSpan), w1) = tracer_Start ctx ''payment.process'' w;
          err = ''simulated payment provider error'';
          w2 = handleRequestError paymentCtx paymentSpan ''payment processing failed'' err
                 ''payment'' w1;
          w3 = Span_End paymentSpan w2
      in (http_Error rw ''Internal Server Error'' StatusInternalServerError, w3))"

definition CreateOrderHandler :: "ResponseWriter \<Rightarrow> Request \<Rightarrow> world \<Rightarrow> ResponseWriter \<times> world" where
  "CreateOrderHandler rw r w =
     (let ctx = Context r;
          (v, w1) = rand_IntN 50 w;
          w2 = time_Sleep (v + 30) w1;
          (b, w3) = rand_IntN 10 w2
      in if b = 0 then
           (let (c, w4) = rand_IntN 2 w3
            in if c = 0 then handleDBError rw r w4
               else
                 (let ((_, dbSpan), w5) = tracer_Start ctx ''db.insert_order'' w4;
                      (d, w6) = rand_IntN 100 w5;
                      w7 = time_Sleep (d + 50) w6;
                      w8 = Span_SetStatus dbSpan Ok ''order record inserted'' w7;
                      w9 = Span_End dbSpan w8
                  in handlePaymentError rw r w9))
         else
           (let ((_, dbSpan), w4) = tracer_Start ctx ''db.insert_order'' w3;
                (d, w5) = rand_IntN 100 w4;
                w6 = time_Sleep (d + 50) w5;
                w7 = Span_SetStatus dbSpan Ok ''order record inserted'' w6;
                w8 = Span_End dbSpan w7;
                ((_, paySpan), w9) = tracer_Start ctx ''payment.process'' w8;
                (p, w10) = rand_IntN 80 w9;
                w11 = time_Sleep (p + 40) w10;
                w12 = Span_SetStatus paySpan Ok ''payment processed successfully'' w11;
                w13 = Span_End paySpan w12;
                w14 = Counter_Add ctx 1 statusSuccess w13;
                (orderID, w15) = rand_IntN 1000 w14;
                resp = \<lparr>Status = ''success'', Message = ''Order created successfully''\<rparr>;
                w16 = Span_SetStatus (SpanFromContext ctx) Ok ''order created successfully'' w15;
                w17 = Logger_Info ctx ''Order created successfully''
                        [attribute_Int ''order.id'' orderID] w16;
                w18 = StructuredLogger_Info (JSONLogger w17) ctx ''Order created successfully''
                        [attribute_Int ''order.id'' orderID] w17;
                rw1 = Header_Set ''Content-Type'' ''application/json'' rw
            in case Write (encode_OrderResponse resp) rw1 of
                 (None, rw2) \<Rightarrow> (rw2, w18)
               | (Some err, rw2) \<Rightarrow>
                   (let w19 = Logger_Error ctx ''Error encoding response''
                                [attribute_String ''error.reason'' err] w18;
                        w20 = StructuredLogger_Error (JSONLogger w19) ctx ''Error encoding response''
                                [attribute_String ''error.reason'' err] w19
                    in (rw2, w20))))"

definition CheckInventoryHandler :: "ResponseWriter \<Rightarrow> Request \<Rightarrow> world \<Rightarrow> ResponseWriter \<times> world" where
  "CheckInventoryHandler rw r w =
     (let ctx = Context r;
          (v, w1) = rand_IntN 601 w;
          delay = v + 200;
          w2 = time_Sleep delay w1;
          resp = \<lparr>Status = ''success'', Message = ''Inventory checked successfully'',
                  DelayMS = delay\<rparr>;
          w3 = Logger_Info ctx ''Inventory checked successfully''
                 [attribute_Int ''inventory.check.delay_ms'' delay] w2;
          w4 = StructuredLogger_Info (JSONLogger w3) ctx ''Inventory checked successfully''
                 [attribute_Int ''inventory.check.delay_ms'' delay] w3;
          rw1 = Header_Set ''Content-Type'' ''application/json'' rw
      in case Write (encode_InventoryResponse resp) rw1 of
           (None, rw2) \<Rightarrow> (rw2, w4)
         | (Some err, rw2) \<Rightarrow>
             (let w5 = Logger_Error ctx ''Error encoding inventory response''
                         [attribute_String ''error.reason'' err] w4;
                  w6 = StructuredLogger_Error (JSONLogger w5) ctx
                         ''Error encoding inventory response''
                         [attribute_String ''error.reason'' err] w5
              in (rw2, w6)))"

text \<open>
  The two routes that \<^verbatim>\<open>routes.SetupRoutes\<close> registers, and the dispatch of a request
  to the handler of its route.
\<close>

datatype route = CreateOrder | CheckInventory

definition ServeHTTP :: "route \<Rightarrow> ResponseWriter \<Rightarrow> Request \<Rightarrow> world \<Rightarrow> ResponseWriter \<times> world" where
  "ServeHTTP rt rw r w =
     (case rt of
        CreateOrder \<Rightarrow> CreateOrderHandler rw r w
      | CheckInventory \<Rightarrow> CheckInventoryHandler rw r w)"

fun serve :: "(route \<times> ResponseWriter \<times> Request) list \<Rightarrow> world \<Rightarrow> world" where
  "serve [] w = w"
| "serve (q # qs) w = serve qs (snd (ServeHTTP (fst q) (fst (snd q)) (snd (snd q)) w))"

text \<open>
  The server handling a sequence of \<^verbatim>\<open>createOrder\<close> requests, each with a fresh
  response writer, one after the other (the counter is the only state they share that
  the claims observe, and its increment is atomic).
\<close>

fun serve_createOrder :: "(ResponseWriter \<times> Request) list \<Rightarrow> world \<Rightarrow> world" where
  "serve_createOrder [] w = w"
| "serve_createOrder (q # qs) w = serve_createOrder qs (snd (CreateOrderHandler (fst q) (snd q) w))"

section \<open>Observing a request\<close>

text \<open>
  What a handler added to the world \<open>w\<close> it started from: the spans it opened and the
  draws and sleeps it performed.
\<close>

definition opened_spans :: "world \<Rightarrow> world \<Rightarrow> Span list" where
  "opened_spans w w' = drop (length (spans w)) (spans w')"

definition new_effects :: "world \<Rightarrow> world \<Rightarrow> effect list" where
  "new_effects w w' = drop (length (effects w)) (effects w')"

text \<open>
  The lines of a file (none for a file that does not exist), and what a call added to
  a span's events, to the console and to a file.
\<close>

definition lines :: "string \<Rightarrow> world \<Rightarrow> entry list" where
  "lines path w = (case files w path of None \<Rightarrow> [] | Some ls \<Rightarrow> ls)"

definition new_events :: "nat \<Rightarrow> world \<Rightarrow> world \<Rightarrow> Event list" where
  "new_events h w w' = drop (length (events (spans w ! h))) (events (spans w' ! h))"

definition new_console :: "world \<Rightarrow> world \<Rightarrow> console_line list" where
  "new_console w w' = drop (length (console w)) (console w')"

definition new_lines :: "string \<Rightarrow> world \<Rightarrow> world \<Rightarrow> entry list" where
  "new_lines path w w' = drop (length (lines path w)) (lines path w')"

text \<open>
  The record of a log call as each sink shows it: the span event, the console line of
  the fallback, and the JSON line for a span context \<open>sc\<close> at instant \<open>t\<close>.
\<close>

definition log_event :: "LogLevel \<Rightarrow> string \<Rightarrow> KeyValue list \<Rightarrow> Event" where
  "log_event level message attrs =
     \<lparr>event_name = ''log'',
      event_attrs = (''log.level'', STRING level) # (''log.message'', STRING message) # attrs\<rparr>"

definition fallback_line :: "LogLevel \<Rightarrow> string \<Rightarrow> KeyValue list \<Rightarrow> console_line" where
  "fallback_line level message attrs =
     (''[%s] %s %v'', [ArgString level, ArgString message, ArgAttrs attrs])"

definition log_entry :: "SpanContext \<Rightarrow> int \<Rightarrow> LogLevel \<Rightarrow> string \<Rightarrow> KeyValue list \<Rightarrow> entry" where
  "log_entry sc t level message attrs =
     (\<lambda>k. if k = ''timestamp'' then Some (AnyTime t)
          else if k = ''level'' then Some (AnyString level)
          else if k = ''message'' then Some (AnyString message)
          else if k = ''attributes'' then Some (AnyMap (attrsToMap attrs))
          else if k = ''trace_id'' \<and> IsValid sc then Some (AnyString (TraceID_String (TraceID sc)))
          else if k = ''span_id'' \<and> IsValid sc then Some (AnyString (SpanID_String (SpanID sc)))
          else None)"

text \<open>
  The three terminal outcomes of \<^verbatim>\<open>createOrder\<close>, each recognised by the stages the
  request went through: the spans it opened, by name, with their final status.
\<close>

datatype outcome = Success | DBFailure | PaymentFailure

definition stages_of :: "outcome \<Rightarrow> (string \<times> Code) list" where
  "stages_of oc =
     (case oc of
        Success \<Rightarrow> [(''db.insert_order'', Ok), (''payment.process'', Ok)]
      | DBFailure \<Rightarrow> [(''db.insert_order'', Error)]
      | PaymentFailure \<Rightarrow> [(''db.insert_order'', Ok), (''payment.process'', Error)])"

definition occurs :: "outcome \<Rightarrow> world \<Rightarrow> world \<Rightarrow> bool" where
  "occurs oc w w' = (map (\<lambda>s. (span_name s, status s)) (opened_spans w w') = stages_of oc)"

text \<open>
  \<open>drawn k n w\<close> is what the call \<^verbatim>\<open>rand.IntN(n)\<close> returns when it is the \<open>k\<close>-th
  call after \<open>w\<close> (counting from 0).
\<close>

definition drawn :: "nat \<Rightarrow> int \<Rightarrow> world \<Rightarrow> int" where
  "drawn k n w = rand_src w (rand_pos w + k) mod n"

text \<open>The generator seeded so that its next raw values are \<open>ds\<close>.\<close>

definition with_draws :: "int list \<Rightarrow> world \<Rightarrow> world" where
  "with_draws ds w =
     w\<lparr>rand_src := (\<lambda>i. if rand_pos w \<le> i \<and> i < rand_pos w + length ds
                          then ds ! (i - rand_pos w) else rand_src w i)\<rparr>"

text \<open>
  The process at start: nothing drawn, logged or measured, no span, no file, an empty
  environment, a disk that takes writes.
\<close>

definition boot :: world where
  "boot =
     \<lparr>rand_src = (\<lambda>_. 0), rand_pos = 0, effects = [], clock = 0, spans = [], id_seq = 0,
      ordersProcessedCounter = [], console = [], env = (\<lambda>_. []), meter_error = None,
      open_error = (\<lambda>_. None),
      disk_ok = True, files = Map.empty,
      JSONLogger = \<lparr>logger_f = None, encoder = None\<rparr>\<rparr>"

definition fresh_writer :: ResponseWriter where
  "fresh_writer = \<lparr>header = Map.empty, status_code = None, body = [], write_error = None\<rparr>"

text \<open>
  Modelled from the spec: the middleware that \<^verbatim>\<open>routes.SetupRoutes\<close> wraps around each
  handler opens the root span of the request, named after the route, and hands the
  handler a request whose context carries it (design section 2, data flow).
\<close>

definition inbound :: "string \<Rightarrow> world \<Rightarrow> Request \<times> world" where
  "inbound route w =
     (case tracer_Start None route w of ((ctx, root), w1) \<Rightarrow> (\<lparr>Context = ctx\<rparr>, w1))"

text \<open>
  A request as the server hands it to a handler: the process has started, the log file
  is open, and the middleware has opened the root span of the route.
\<close>

definition order_request :: "Request \<times> world" where
  "order_request = inbound ''POST /createOrder'' (logging_init boot)"

definition inventory_request :: "Request \<times> world" where
  "inventory_request = inbound ''GET /checkInventory'' (logging_init boot)"

text \<open>
  The same on a system that refuses to open any log file: the process starts with a
  structured logger that has no file.
\<close>

definition boot_no_log_file :: world where
  "boot_no_log_file = boot\<lparr>open_error := (\<lambda>_. Some ''permission denied'')\<rparr>"

definition degraded_request :: "Request \<times> world" where
  "degraded_request = inbound ''POST /createOrder'' (logging_init boot_no_log_file)"

section \<open>Frame lemmas: what each operation leaves alone\<close>


lemma rand_IntN_frame:
  "rand_src (snd (rand_IntN n w)) = rand_src w"
  "rand_pos (snd (rand_IntN n w)) = Suc (rand_pos w)"
  "effects (snd (rand_IntN n w)) = effects w @ [Draw n (rand_src w (rand_pos w) mod n)]"
  "clock (snd (rand_IntN n w)) = clock w"
  "spans (snd (rand_IntN n w)) = spans w"
  "id_seq (snd (rand_IntN n w)) = id_seq w"
  "ordersProcessedCounter (snd (rand_IntN n w)) = ordersProcessedCounter w"
  "console (snd (rand_IntN n w)) = console w"
  "env (snd (rand_IntN n w)) = env w"
  "open_error (snd (rand_IntN n w)) = open_error w"
  "disk_ok (snd (rand_IntN n w)) = disk_ok w"
  "files (snd (rand_IntN n w)) = files w"
  "JSONLogger (snd (rand_IntN n w)) = JSONLogger w"
  by (simp_all add: rand_IntN_def Let_def)

lemma time_Sleep_frame:
  "rand_src (time_Sleep d w) = rand_src w"
  "rand_pos (time_Sleep d w) = rand_pos w"
  "effects (time_Sleep d w) = effects w @ [Sleep d]"
  "clock (time_Sleep d w) = clock w + max 0 d"
  "spans (time_Sleep d w) = spans w"
  "id_seq (time_Sleep d w) = id_seq w"
  "ordersProcessedCounter (time_Sleep d w) = ordersProcessedCounter w"
  "console (time_Sleep d w) = console w"
  "env (time_Sleep d w) = env w"
  "open_error (time_Sleep d w) = open_error w"
  "disk_ok (time_Sleep d w) = disk_ok w"
  "files (time_Sleep d w) = files w"
  "JSONLogger (time_Sleep d w) = JSONLogger w"
  by (simp_all add: time_Sleep_def)

lemma log_Printf_frame:
  "rand_src (log_Printf fmt args w) = rand_src w"
  "rand_pos (log_Printf fmt args w) = rand_pos w"
  "effects (log_Printf fmt args w) = effects w"
  "clock (log_Printf fmt args w) = clock w"
  "spans (log_Printf fmt args w) = spans w"
  "id_seq (log_Printf fmt args w) = id_seq w"
  "ordersProcessedCounter (log_Printf fmt args w) = ordersProcessedCounter w"
  "console (log_Printf fmt args w) = console w @ [(fmt, args)]"
  "env (log_Printf fmt args w) = env w"
  "open_error (log_Printf fmt args w) = open_error w"
  "disk_ok (log_Printf fmt args w) = disk_ok w"
  "files (log_Printf fmt args w) = files w"
  "JSONLogger (log_Printf fmt args w) = JSONLogger w"
  by (simp_all add: log_Printf_def)

lemma span_update_frame:
  "rand_src (span_update sp g w) = rand_src w"
  "rand_pos (span_update sp g w) = rand_pos w"
  "effects (span_update sp g w) = effects w"
  "clock (span_update sp g w) = clock w"
  "id_seq (span_update sp g w) = id_seq w"
  "ordersProcessedCounter (span_update sp g w) = ordersProcessedCounter w"
  "console (span_update sp g w) = console w"
  "env (span_update sp g w) = env w"
  "open_error (span_update sp g w) = open_error w"
  "disk_ok (span_update sp g w) = disk_ok w"
  "files (span_update sp g w) = files w"
  "JSONLogger (span_update sp g w) = JSONLogger w"
  by (simp_all add: span_update_def split: option.split)

lemma tracer_Start_frame:
  "rand_src (snd (tracer_Start ctx nm w)) = rand_src w"
  "rand_pos (snd (tracer_Start ctx nm w)) = rand_pos w"
  "effects (snd (tracer_Start ctx nm w)) = effects w"
  "clock (snd (tracer_Start ctx nm w)) = clock w"
  "id_seq (snd (tracer_Start ctx nm w)) = id_seq w + 2"
  "ordersProcessedCounter (snd (tracer_Start ctx nm w)) = ordersProcessedCounter w"
  "console (snd (tracer_Start ctx nm w)) = console w"
  "env (snd (tracer_Start ctx nm w)) = env w"
  "open_error (snd (tracer_Start ctx nm w)) = open_error w"
  "disk_ok (snd (tracer_Start ctx nm w)) = disk_ok w"
  "files (snd (tracer_Start ctx nm w)) = files w"
  "JSONLogger (snd (tracer_Start ctx nm w)) = JSONLogger w"
  by (simp_all add: tracer_Start_def Let_def)

lemma Counter_Add_frame:
  "rand_src (Counter_Add ctx delta label w) = rand_src w"
  "rand_pos (Counter_Add ctx delta label w) = rand_pos w"
  "effects (Counter_Add ctx delta label w) = effects w"
  "clock (Counter_Add ctx delta label w) = clock w"
  "spans (Counter_Add ctx delta label w) = spans w"
  "id_seq (Counter_Add ctx delta label w) = id_seq w"
  "ordersProcessedCounter (Counter_Add ctx delta label w) = ordersProcessedCounter w @ [(label, delta)]"
  "console (Counter_Add ctx delta label w) = console w"
  "env (Counter_Add ctx delta label w) = env w"
  "open_error (Counter_Add ctx delta label w) = open_error w"
  "disk_ok (Counter_Add ctx delta label w) = disk_ok w"
  "files (Counter_Add ctx delta label w) = files w"
  "JSONLogger (Counter_Add ctx delta label w) = JSONLogger w"
  by (simp_all add: Counter_Add_def)

lemma file_Encode_frame:
  "rand_src (file_Encode path ks e w) = rand_src w"
  "rand_pos (file_Encode path ks e w) = rand_pos w"
  "effects (file_Encode path ks e w) = effects w"
  "clock (file_Encode path ks e w) = clock w"
  "spans (file_Encode path ks e w) = spans w"
  "id_seq (file_Encode path ks e w) = id_seq w"
  "ordersProcessedCounter (file_Encode path ks e w) = ordersProcessedCounter w"
  "console (file_Encode path ks e w) = console w"
  "env (file_Encode path ks e w) = env w"
  "open_error (file_Encode path ks e w) = open_error w"
  "disk_ok (file_Encode path ks e w) = disk_ok w"
  "JSONLogger (file_Encode path ks e w) = JSONLogger w"
  by (simp_all add: file_Encode_def)

lemma os_OpenFile_frame:
  "rand_src (snd (os_OpenFile path w)) = rand_src w"
  "rand_pos (snd (os_OpenFile path w)) = rand_pos w"
  "effects (snd (os_OpenFile path w)) = effects w"
  "clock (snd (os_OpenFile path w)) = clock w"
  "spans (snd (os_OpenFile path w)) = spans w"
  "id_seq (snd (os_OpenFile path w)) = id_seq w"
  "ordersProcessedCounter (snd (os_OpenFile path w)) = ordersProcessedCounter w"
  "console (snd (os_OpenFile path w)) = console w"
  "env (snd (os_OpenFile path w)) = env w"
  "open_error (snd (os_OpenFile path w)) = open_error w"
  "disk_ok (snd (os_OpenFile path w)) = disk_ok w"
  "JSONLogger (snd (os_OpenFile path w)) = JSONLogger w"
  by (simp_all add: os_OpenFile_def split: option.split)
lemma rand_IntN_fst: "fst (rand_IntN n w) = rand_src w (rand_pos w) mod n"
  by (simp add: rand_IntN_def Let_def)

lemma tracer_Start_fst: "fst (tracer_Start ctx nm w) = (Some (length (spans w)), Some (length (spans w)))"
  by (simp add: tracer_Start_def Let_def)

lemma tracer_Start_spans:
  "spans (snd (tracer_Start ctx nm w)) = spans w @ [new_span ctx nm w]"
  by (simp add: tracer_Start_def Let_def)

lemma new_span_recording: "recording (new_span ctx nm w)"
  by (simp add: new_span_def Let_def recording_def IsValid_def)

lemma new_span_fields:
  "span_name (new_span ctx nm w) = nm"
  "status (new_span ctx nm w) = Unset"
  "events (new_span ctx nm w) = []"
  "recorded_error (new_span ctx nm w) = None"
  "start_time (new_span ctx nm w) = clock w"
  "end_time (new_span ctx nm w) = None"
  by (simp_all add: new_span_def Let_def)

lemma span_update_length: "length (spans (span_update sp g w)) = length (spans w)"
  by (simp add: span_update_def split: option.split)

lemma span_update_last:
  "spans w = xs @ [s] \<Longrightarrow> recording s \<Longrightarrow> spans (span_update (Some (length xs)) g w) = xs @ [g s]"
  by (simp add: span_update_def)

lemma span_update_old:
  "spans w = xs @ ys \<Longrightarrow> list_all (\<lambda>s. \<not> recording s) ys \<Longrightarrow>
   \<exists>xs'. length xs' = length xs \<and> spans (span_update sp g w) = xs' @ ys"
proof (cases sp)
  case None
  assume "spans w = xs @ ys"
  with None show ?thesis by (simp add: span_update_def)
next
  case (Some h)
  assume a: "spans w = xs @ ys" and b: "list_all (\<lambda>s. \<not> recording s) ys"
  show ?thesis
  proof (cases "h < length xs")
    case True
    with a Some have "spans (span_update sp g w) = (if recording (xs ! h) then xs[h := g (xs ! h)] else xs) @ ys"
      by (simp add: span_update_def nth_append list_update_append)
    then show ?thesis by (intro exI[of _ "if recording (xs ! h) then xs[h := g (xs ! h)] else xs"]) simp
  next
    case False
    with a b Some have "spans (span_update sp g w) = xs @ ys"
      by (auto simp add: span_update_def nth_append list_all_length)
    then show ?thesis by blast
  qed
qed


lemmas prim_frames = rand_IntN_frame time_Sleep_frame log_Printf_frame span_update_frame
  tracer_Start_frame Counter_Add_frame file_Encode_frame

lemmas span_op_defs = Span_SetStatus_def Span_RecordError_def Span_AddEvent_def Span_End_def

lemma Span_SpanContext_frame:
  "spans w' = spans w \<Longrightarrow> Span_SpanContext sp w' = Span_SpanContext sp w"
  by (simp add: Span_SpanContext_def split: option.split)

lemma Span_SpanContext_last:
  "spans w = xs @ [s] \<Longrightarrow> Span_SpanContext (Some (length xs)) w = span_context s"
  by (simp add: Span_SpanContext_def)

lemma Logger_log_frame:
  "rand_src (Logger_log ctx lv m as w) = rand_src w"
  "rand_pos (Logger_log ctx lv m as w) = rand_pos w"
  "effects (Logger_log ctx lv m as w) = effects w"
  "clock (Logger_log ctx lv m as w) = clock w"
  "id_seq (Logger_log ctx lv m as w) = id_seq w"
  "ordersProcessedCounter (Logger_log ctx lv m as w) = ordersProcessedCounter w"
  "env (Logger_log ctx lv m as w) = env w"
  "open_error (Logger_log ctx lv m as w) = open_error w"
  "disk_ok (Logger_log ctx lv m as w) = disk_ok w"
  "files (Logger_log ctx lv m as w) = files w"
  "JSONLogger (Logger_log ctx lv m as w) = JSONLogger w"
  "length (spans (Logger_log ctx lv m as w)) = length (spans w)"
  by (simp_all add: Logger_log_def Let_def Span_AddEvent_def prim_frames span_update_length)

lemma Logger_log_console:
  "console (Logger_log ctx lv m as w) =
     (if IsValid (Span_SpanContext ctx w) then console w
      else console w @ [(''[%s] %s %v'', [ArgString lv, ArgString m, ArgAttrs as])])"
  by (simp add: Logger_log_def Let_def Span_AddEvent_def prim_frames SpanFromContext_def)

lemma Logger_log_last:
  assumes "spans w = xs @ [s]" and "recording s"
  shows "spans (Logger_log (Some (length xs)) lv m as w) =
           xs @ [s\<lparr>events := events s @
                   [\<lparr>event_name = ''log'',
                     event_attrs = attribute_String ''log.level'' lv #
                                   attribute_String ''log.message'' m # as\<rparr>]\<rparr>]"
proof -
  from assms have "IsValid (Span_SpanContext (Some (length xs)) w)"
    by (simp add: Span_SpanContext_last recording_def)
  then show ?thesis
    using assms by (simp add: Logger_log_def Let_def Span_AddEvent_def SpanFromContext_def span_update_last)
qed

lemma Logger_log_old:
  assumes "spans w = xs @ ys" and "list_all (\<lambda>s. \<not> recording s) ys"
  shows "\<exists>xs'. length xs' = length xs \<and> spans (Logger_log ctx lv m as w) = xs' @ ys"
proof (cases "IsValid (Span_SpanContext ctx w)")
  case True
  then show ?thesis
    using span_update_old [OF assms]
    by (simp add: Logger_log_def Let_def Span_AddEvent_def SpanFromContext_def)
next
  case False
  then show ?thesis
    using assms by (simp add: Logger_log_def Let_def SpanFromContext_def prim_frames)
qed

lemma StructuredLogger_write_frame:
  "rand_src (StructuredLogger_write l ctx lv m as w) = rand_src w"
  "rand_pos (StructuredLogger_write l ctx lv m as w) = rand_pos w"
  "effects (StructuredLogger_write l ctx lv m as w) = effects w"
  "clock (StructuredLogger_write l ctx lv m as w) = clock w"
  "spans (StructuredLogger_write l ctx lv m as w) = spans w"
  "id_seq (StructuredLogger_write l ctx lv m as w) = id_seq w"
  "ordersProcessedCounter (StructuredLogger_write l ctx lv m as w) = ordersProcessedCounter w"
  "env (StructuredLogger_write l ctx lv m as w) = env w"
  "open_error (StructuredLogger_write l ctx lv m as w) = open_error w"
  "disk_ok (StructuredLogger_write l ctx lv m as w) = disk_ok w"
  "JSONLogger (StructuredLogger_write l ctx lv m as w) = JSONLogger w"
  by (simp_all add: StructuredLogger_write_def Let_def prim_frames split: option.split)

lemmas log_wrappers = Logger_Info_def Logger_Error_def StructuredLogger_Info_def
  StructuredLogger_Error_def

lemmas frames = prim_frames Logger_log_frame StructuredLogger_write_frame

lemma handleRequestError_frame:
  "rand_src (handleRequestError ctx sp m e st w) = rand_src w"
  "rand_pos (handleRequestError ctx sp m e st w) = rand_pos w"
  "effects (handleRequestError ctx sp m e st w) = effects w"
  "clock (handleRequestError ctx sp m e st w) = clock w"
  "id_seq (handleRequestError ctx sp m e st w) = id_seq w"
  "ordersProcessedCounter (handleRequestError ctx sp m e st w) =
     ordersProcessedCounter w @ [(statusFailure, 1)]"
  "env (handleRequestError ctx sp m e st w) = env w"
  "open_error (handleRequestError ctx sp m e st w) = open_error w"
  "disk_ok (handleRequestError ctx sp m e st w) = disk_ok w"
  "JSONLogger (handleRequestError ctx sp m e st w) = JSONLogger w"
  "length (spans (handleRequestError ctx sp m e st w)) = length (spans w)"
  by (simp_all add: handleRequestError_def Let_def log_wrappers span_op_defs frames span_update_length)

lemma handleRequestError_last:
  assumes "spans w = xs @ [s]" and "recording s"
  shows "spans (handleRequestError (Some (length xs)) (Some (length xs)) m e st w) =
           xs @ [s\<lparr>events := events s @
                   [\<lparr>event_name = ''log'',
                     event_attrs = [attribute_String ''log.level'' LevelError,
                                    attribute_String ''log.message'' m,
                                    attribute_String ''error.stage'' st,
                                    attribute_String ''error.reason'' e]\<rparr>],
                   recorded_error := Some e, status := Error, status_message := m\<rparr>]"
proof -
  let ?as = "[attribute_String ''error.stage'' st, attribute_String ''error.reason'' e]"
  let ?h = "Some (length xs)"
  define w1 where "w1 = Logger_Error ?h m ?as w"
  define w2 where "w2 = StructuredLogger_Error (JSONLogger w1) ?h m ?as w1"
  define w3 where "w3 = Counter_Add ?h 1 statusFailure w2"
  define w4 where "w4 = Span_RecordError ?h e w3"
  define w5 where "w5 = Span_SetStatus ?h Error m w4"
  define s1 where "s1 = s\<lparr>events := events s @
       [\<lparr>event_name = ''log'',
         event_attrs = attribute_String ''log.level'' LevelError #
                       attribute_String ''log.message'' m # ?as\<rparr>]\<rparr>"
  have r1: "recording s1" using assms(2) by (simp add: s1_def recording_def)
  have 1: "spans w1 = xs @ [s1]"
    unfolding w1_def s1_def Logger_Error_def by (rule Logger_log_last [OF assms])
  have 3: "spans w3 = xs @ [s1]"
    using 1 by (simp add: w3_def w2_def StructuredLogger_Error_def frames)
  have 4: "spans w4 = xs @ [s1\<lparr>recorded_error := Some e\<rparr>]"
    unfolding w4_def Span_RecordError_def by (rule span_update_last [OF 3 r1])
  have r4: "recording (s1\<lparr>recorded_error := Some e\<rparr>)" using r1 by (simp add: recording_def)
  have 5: "spans w5 = xs @ [s1\<lparr>recorded_error := Some e, status := Error, status_message := m\<rparr>]"
    unfolding w5_def Span_SetStatus_def using span_update_last [OF 4 r4] by simp
  have r5: "recording (s1\<lparr>recorded_error := Some e, status := Error, status_message := m\<rparr>)"
    using r1 by (simp add: recording_def)
  have "spans (Span_SetStatus (SpanFromContext ?h) Error m w5) =
          xs @ [s1\<lparr>recorded_error := Some e, status := Error, status_message := m\<rparr>]"
    unfolding Span_SetStatus_def SpanFromContext_def using span_update_last [OF 5 r5] by simp
  then show ?thesis
    by (simp add: handleRequestError_def Let_def w1_def w2_def w3_def w4_def w5_def s1_def)
qed


lemma mod_nonneg: "0 < n \<Longrightarrow> max 0 (x mod n + k) = x mod n + k" if "0 \<le> k" for x n k :: int
  using that by (simp add: max_def)

lemma handleDBError_frame:
  "rand_src (snd (handleDBError rw r w)) = rand_src w"
  "rand_pos (snd (handleDBError rw r w)) = Suc (rand_pos w)"
  "effects (snd (handleDBError rw r w)) =
     effects w @ [Draw 40 (drawn 0 40 w), Sleep (drawn 0 40 w + 10)]"
  "clock (snd (handleDBError rw r w)) = clock w + (drawn 0 40 w + 10)"
  "id_seq (snd (handleDBError rw r w)) = id_seq w + 2"
  "ordersProcessedCounter (snd (handleDBError rw r w)) =
     ordersProcessedCounter w @ [(statusFailure, 1)]"
  "JSONLogger (snd (handleDBError rw r w)) = JSONLogger w"
  "fst (handleDBError rw r w) = http_Error rw ''Internal Server Error'' StatusInternalServerError"
  by (simp_all add: handleDBError_def Let_def split_beta span_op_defs frames
        handleRequestError_frame rand_IntN_fst drawn_def mod_nonneg)

lemma handleDBError_spans:
  "spans (snd (handleDBError rw r w)) =
     spans w @
     [(new_span (Context r) ''db.insert_order'' w)
        \<lparr>events :=
           [\<lparr>event_name = ''log'',
             event_attrs = [attribute_String ''log.level'' LevelError,
                            attribute_String ''log.message'' ''database operation failed'',
                            attribute_String ''error.stage'' ''database'',
                            attribute_String ''error.reason''
                              ''simulated database constraint violation'']\<rparr>],
         recorded_error := Some ''simulated database constraint violation'',
         status := Error, status_message := ''database operation failed'',
         end_time := Some (clock w + (drawn 0 40 w + 10))\<rparr>]"
proof -
  let ?s0 = "new_span (Context r) ''db.insert_order'' w"
  let ?h = "Some (length (spans w))"
  let ?s4 = "?s0\<lparr>events := events ?s0 @
       [\<lparr>event_name = ''log'',
         event_attrs = [attribute_String ''log.level'' LevelError,
                        attribute_String ''log.message'' ''database operation failed'',
                        attribute_String ''error.stage'' ''database'',
                        attribute_String ''error.reason''
                          ''simulated database constraint violation'']\<rparr>],
       recorded_error := Some ''simulated database constraint violation'',
       status := Error, status_message := ''database operation failed''\<rparr>"
  define w1 where "w1 = snd (tracer_Start (Context r) ''db.insert_order'' w)"
  define w3 where "w3 = time_Sleep (fst (rand_IntN 40 w1) + 10) (snd (rand_IntN 40 w1))"
  define w4 where "w4 = handleRequestError ?h ?h ''database operation failed''
     ''simulated database constraint violation'' ''database'' w3"
  have 3: "spans w3 = spans w @ [?s0]"
    by (simp add: w3_def w1_def frames tracer_Start_spans)
  have c4: "clock w4 = clock w + (drawn 0 40 w + 10)"
    by (simp add: w4_def w3_def w1_def frames handleRequestError_frame rand_IntN_fst
          drawn_def mod_nonneg)
  have 4: "spans w4 = spans w @ [?s4]"
    unfolding w4_def by (rule handleRequestError_last [OF 3 new_span_recording])
  have r4: "recording ?s4"
    using new_span_recording [of "Context r" "''db.insert_order''" w] by (simp add: recording_def)
  have "spans (Span_End ?h w4) = spans w @ [?s4\<lparr>end_time := Some (clock w4)\<rparr>]"
    unfolding Span_End_def by (rule span_update_last [OF 4 r4])
  then show ?thesis
    by (simp add: handleDBError_def Let_def split_beta tracer_Start_fst
          w4_def [symmetric] w3_def [symmetric] w1_def [symmetric] c4 new_span_fields)
qed


lemma handlePaymentError_frame:
  "rand_src (snd (handlePaymentError rw r w)) = rand_src w"
  "rand_pos (snd (handlePaymentError rw r w)) = rand_pos w"
  "effects (snd (handlePaymentError rw r w)) = effects w"
  "clock (snd (handlePaymentError rw r w)) = clock w"
  "id_seq (snd (handlePaymentError rw r w)) = id_seq w + 2"
  "ordersProcessedCounter (snd (handlePaymentError rw r w)) =
     ordersProcessedCounter w @ [(statusFailure, 1)]"
  "JSONLogger (snd (handlePaymentError rw r w)) = JSONLogger w"
  "fst (handlePaymentError rw r w) =
     http_Error rw ''Internal Server Error'' StatusInternalServerError"
  by (simp_all add: handlePaymentError_def Let_def split_beta span_op_defs frames
        handleRequestError_frame)

lemma handlePaymentError_spans:
  "spans (snd (handlePaymentError rw r w)) =
     spans w @
     [(new_span (Context r) ''payment.process'' w)
        \<lparr>events :=
           [\<lparr>event_name = ''log'',
             event_attrs = [attribute_String ''log.level'' LevelError,
                            attribute_String ''log.message'' ''payment processing failed'',
                            attribute_String ''error.stage'' ''payment'',
                            attribute_String ''error.reason''
                              ''simulated payment provider error'']\<rparr>],
         recorded_error := Some ''simulated payment provider error'',
         status := Error, status_message := ''payment processing failed'',
         end_time := Some (clock w)\<rparr>]"
proof -
  let ?s0 = "new_span (Context r) ''payment.process'' w"
  let ?h = "Some (length (spans w))"
  let ?s2 = "?s0\<lparr>events := events ?s0 @
       [\<lparr>event_name = ''log'',
         event_attrs = [attribute_String ''log.level'' LevelError,
                        attribute_String ''log.message'' ''payment processing failed'',
                        attribute_String ''error.stage'' ''payment'',
                        attribute_String ''error.reason'' ''simulated payment provider error'']\<rparr>],
       recorded_error := Some ''simulated payment provider error'',
       status := Error, status_message := ''payment processing failed''\<rparr>"
  define w1 where "w1 = snd (tracer_Start (Context r) ''payment.process'' w)"
  define w2 where "w2 = handleRequestError ?h ?h ''payment processing failed''
     ''simulated payment provider error'' ''payment'' w1"
  have 1: "spans w1 = spans w @ [?s0]"
    by (simp add: w1_def tracer_Start_spans)
  have c2: "clock w2 = clock w"
    by (simp add: w2_def w1_def frames handleRequestError_frame)
  have 2: "spans w2 = spans w @ [?s2]"
    unfolding w2_def by (rule handleRequestError_last [OF 1 new_span_recording])
  have r2: "recording ?s2"
    using new_span_recording [of "Context r" "''payment.process''" w] by (simp add: recording_def)
  have "spans (Span_End ?h w2) = spans w @ [?s2\<lparr>end_time := Some (clock w2)\<rparr>]"
    unfolding Span_End_def by (rule span_update_last [OF 2 r2])
  then show ?thesis
    by (simp add: handlePaymentError_def Let_def split_beta tracer_Start_fst
          w2_def [symmetric] w1_def [symmetric] c2 new_span_fields)
qed

lemma drawn_simps:
  "drawn 0 n w = rand_src w (rand_pos w) mod n"
  "drawn 1 n w = rand_src w (Suc (rand_pos w)) mod n"
  "drawn (Suc 0) n w = rand_src w (Suc (rand_pos w)) mod n"
  "drawn 2 n w = rand_src w (Suc (Suc (rand_pos w))) mod n"
  "drawn 3 n w = rand_src w (Suc (Suc (Suc (rand_pos w)))) mod n"
  "drawn 4 n w = rand_src w (Suc (Suc (Suc (Suc (rand_pos w))))) mod n"
  "drawn 5 n w = rand_src w (Suc (Suc (Suc (Suc (Suc (rand_pos w)))))) mod n"
  by (simp_all add: drawn_def eval_nat_numeral)

lemma CreateOrderHandler_db:
  assumes "drawn 1 10 w = 0" and "drawn 2 2 w = 0"
  shows "CreateOrderHandler rw r w =
           handleDBError rw r
             (snd (rand_IntN 2 (snd (rand_IntN 10 (time_Sleep (drawn 0 50 w + 30) (snd (rand_IntN 50 w)))))))"
  using assms
  by (simp add: CreateOrderHandler_def Let_def split_beta rand_IntN_fst frames drawn_simps)

lemma CreateOrderHandler_payment:
  assumes "drawn 1 10 w = 0" and "drawn 2 2 w \<noteq> 0"
  shows "CreateOrderHandler rw r w =
           handlePaymentError rw r
             (Span_End (Some (length (spans w)))
               (Span_SetStatus (Some (length (spans w))) Ok ''order record inserted''
                 (time_Sleep (drawn 3 100 w + 50)
                   (snd (rand_IntN 100
                     (snd (tracer_Start (Context r) ''db.insert_order''
                       (snd (rand_IntN 2 (snd (rand_IntN 10
                         (time_Sleep (drawn 0 50 w + 30) (snd (rand_IntN 50 w))))))))))))))"
  using assms
  by (simp add: CreateOrderHandler_def Let_def split_beta rand_IntN_fst frames drawn_simps
        tracer_Start_fst)


lemma span_op_frame:
  "rand_src (Span_SetStatus sp c msg w) = rand_src w"
  "rand_pos (Span_SetStatus sp c msg w) = rand_pos w"
  "effects (Span_SetStatus sp c msg w) = effects w"
  "clock (Span_SetStatus sp c msg w) = clock w"
  "id_seq (Span_SetStatus sp c msg w) = id_seq w"
  "ordersProcessedCounter (Span_SetStatus sp c msg w) = ordersProcessedCounter w"
  "console (Span_SetStatus sp c msg w) = console w"
  "files (Span_SetStatus sp c msg w) = files w"
  "disk_ok (Span_SetStatus sp c msg w) = disk_ok w"
  "JSONLogger (Span_SetStatus sp c msg w) = JSONLogger w"
  "length (spans (Span_SetStatus sp c msg w)) = length (spans w)"
  "rand_src (Span_End sp w) = rand_src w"
  "rand_pos (Span_End sp w) = rand_pos w"
  "effects (Span_End sp w) = effects w"
  "clock (Span_End sp w) = clock w"
  "id_seq (Span_End sp w) = id_seq w"
  "ordersProcessedCounter (Span_End sp w) = ordersProcessedCounter w"
  "console (Span_End sp w) = console w"
  "files (Span_End sp w) = files w"
  "disk_ok (Span_End sp w) = disk_ok w"
  "JSONLogger (Span_End sp w) = JSONLogger w"
  "length (spans (Span_End sp w)) = length (spans w)"
  by (simp_all add: Span_SetStatus_def Span_End_def span_update_frame span_update_length)

lemma ok_stage_spans:
  assumes "h = length (spans w)"
  shows "spans (Span_End (Some h) (Span_SetStatus (Some h) Ok msg
           (time_Sleep d (snd (rand_IntN n (snd (tracer_Start ctx nm w))))))) =
         spans w @ [(new_span ctx nm w)
                      \<lparr>status := Ok, status_message := msg,
                       end_time := Some (clock w + max 0 d)\<rparr>]"
proof -
  let ?s0 = "new_span ctx nm w"
  define w3 where "w3 = time_Sleep d (snd (rand_IntN n (snd (tracer_Start ctx nm w))))"
  define w4 where "w4 = Span_SetStatus (Some (length (spans w))) Ok msg w3"
  have 3: "spans w3 = spans w @ [?s0]"
    by (simp add: w3_def frames tracer_Start_spans)
  have 4: "spans w4 = spans w @ [?s0\<lparr>status := Ok, status_message := msg\<rparr>]"
    unfolding w4_def Span_SetStatus_def by (rule span_update_last [OF 3 new_span_recording])
  have r4: "recording (?s0\<lparr>status := Ok, status_message := msg\<rparr>)"
    using new_span_recording [of ctx nm w] by (simp add: recording_def)
  have c4: "clock w4 = clock w + max 0 d"
    by (simp add: w4_def w3_def frames span_op_frame)
  have "spans (Span_End (Some (length (spans w))) w4) =
          spans w @ [?s0\<lparr>status := Ok, status_message := msg, end_time := Some (clock w4)\<rparr>]"
    unfolding Span_End_def by (rule span_update_last [OF 4 r4])
  then show ?thesis
    by (simp add: assms w4_def w3_def c4 [unfolded w4_def w3_def])
qed

lemma drop_span_update:
  assumes "list_all (\<lambda>s. \<not> recording s) (drop k (spans w))" and "k \<le> length (spans w)"
  shows "drop k (spans (span_update sp g w)) = drop k (spans w)"
proof -
  have "spans w = take k (spans w) @ drop k (spans w)" by simp
  from span_update_old [OF this assms(1)]
  obtain xs' where "length xs' = length (take k (spans w))"
    and "spans (span_update sp g w) = xs' @ drop k (spans w)" by blast
  with assms(2) show ?thesis by simp
qed

lemma drop_Span_SetStatus:
  "list_all (\<lambda>s. \<not> recording s) (drop k (spans w)) \<Longrightarrow> k \<le> length (spans w) \<Longrightarrow>
   drop k (spans (Span_SetStatus sp c msg w)) = drop k (spans w)"
  unfolding Span_SetStatus_def by (rule drop_span_update)

lemma drop_Logger_log:
  assumes "list_all (\<lambda>s. \<not> recording s) (drop k (spans w))" and "k \<le> length (spans w)"
  shows "drop k (spans (Logger_log ctx lv m as w)) = drop k (spans w)"
proof -
  have "spans w = take k (spans w) @ drop k (spans w)" by simp
  from Logger_log_old [OF this assms(1)]
  obtain xs' where "length xs' = length (take k (spans w))"
    and "spans (Logger_log ctx lv m as w) = xs' @ drop k (spans w)" by blast
  with assms(2) show ?thesis by simp
qed

lemma CreateOrderHandler_success_spans:
  assumes "drawn 1 10 w \<noteq> 0"
  shows "map (\<lambda>s. (span_name s, status s, end_time s \<noteq> None))
           (opened_spans w (snd (CreateOrderHandler rw r w))) =
         [(''db.insert_order'', Ok, True), (''payment.process'', Ok, True)]"
  using assms
  by (simp add: opened_spans_def CreateOrderHandler_def Let_def split_beta rand_IntN_fst
        frames span_op_frame drawn_simps tracer_Start_fst ok_stage_spans log_wrappers
        drop_Span_SetStatus drop_Logger_log new_span_fields recording_def
      split: option.split)

section \<open>The order pipeline: outcomes and the counter\<close>

lemma CreateOrderHandler_counter:
  "ordersProcessedCounter (snd (CreateOrderHandler rw r w)) =
     ordersProcessedCounter w @
     [(if drawn 1 10 w = 0 then statusFailure else statusSuccess, 1)]"
  by (simp add: CreateOrderHandler_def Let_def split_beta rand_IntN_fst frames span_op_frame
        drawn_simps log_wrappers handleDBError_frame handlePaymentError_frame
      split: option.split)

lemma CheckInventoryHandler_frame:
  "ordersProcessedCounter (snd (CheckInventoryHandler rw r w)) = ordersProcessedCounter w"
  "effects (snd (CheckInventoryHandler rw r w)) =
     effects w @ [Draw 601 (drawn 0 601 w), Sleep (drawn 0 601 w + 200)]"
  "length (spans (snd (CheckInventoryHandler rw r w))) = length (spans w)"
  "JSONLogger (snd (CheckInventoryHandler rw r w)) = JSONLogger w"
  by (simp_all add: CheckInventoryHandler_def Let_def split_beta rand_IntN_fst frames
        drawn_simps log_wrappers split: option.split)

lemma CreateOrderHandler_db_spans:
  assumes "drawn 1 10 w = 0" and "drawn 2 2 w = 0"
  shows "map (\<lambda>s. (span_name s, status s, end_time s \<noteq> None))
           (opened_spans w (snd (CreateOrderHandler rw r w))) =
         [(''db.insert_order'', Error, True)]"
  by (simp add: CreateOrderHandler_db [OF assms] opened_spans_def handleDBError_spans frames
        new_span_fields)

lemma CreateOrderHandler_payment_spans:
  assumes "drawn 1 10 w = 0" and "drawn 2 2 w \<noteq> 0"
  shows "map (\<lambda>s. (span_name s, status s, end_time s \<noteq> None))
           (opened_spans w (snd (CreateOrderHandler rw r w))) =
         [(''db.insert_order'', Ok, True), (''payment.process'', Error, True)]"
  by (simp add: CreateOrderHandler_payment [OF assms] opened_spans_def handlePaymentError_spans
        ok_stage_spans frames new_span_fields)

lemma CreateOrderHandler_stages:
  "map (\<lambda>s. (span_name s, status s)) (opened_spans w (snd (CreateOrderHandler rw r w))) =
     stages_of (if drawn 1 10 w \<noteq> 0 then Success
                else if drawn 2 2 w = 0 then DBFailure else PaymentFailure)"
proof -
  have m: "map (\<lambda>s. (span_name s, status s)) xs = map (\<lambda>t. (fst t, fst (snd t))) ys"
    if "map (\<lambda>s. (span_name s, status s, end_time s \<noteq> None)) xs = ys"
    for xs :: "Span list" and ys
    unfolding that [symmetric] by (simp add: comp_def)
  consider (ok) "drawn 1 10 w \<noteq> 0" | (db) "drawn 1 10 w = 0" "drawn 2 2 w = 0"
    | (pay) "drawn 1 10 w = 0" "drawn 2 2 w \<noteq> 0" by blast
  then show ?thesis
  proof cases
    case ok
    from m [OF CreateOrderHandler_success_spans [OF ok]] ok show ?thesis
      by (simp add: stages_of_def)
  next
    case db
    from m [OF CreateOrderHandler_db_spans [OF db]] db show ?thesis
      by (simp add: stages_of_def)
  next
    case pay
    from m [OF CreateOrderHandler_payment_spans [OF pay]] pay show ?thesis
      by (simp add: stages_of_def)
  qed
qed

lemma stages_of_inj: "stages_of a = stages_of b \<longleftrightarrow> a = b"
  by (cases a; cases b) (simp_all add: stages_of_def)

lemma occurs_CreateOrderHandler:
  "occurs oc w (snd (CreateOrderHandler rw r w)) \<longleftrightarrow>
     oc = (if drawn 1 10 w \<noteq> 0 then Success
           else if drawn 2 2 w = 0 then DBFailure else PaymentFailure)"
  unfolding occurs_def CreateOrderHandler_stages stages_of_inj by auto

lemma counter_total_cong: "ordersProcessedCounter w' = ordersProcessedCounter w @ ms \<Longrightarrow>
  counter_total l w' = counter_total l w + sum_list (map snd (filter (\<lambda>m. fst m = l) ms))"
  by (simp add: counter_total_def)

lemma CreateOrderHandler_total:
  "counter_total statusSuccess (snd (CreateOrderHandler rw r w)) +
   counter_total statusFailure (snd (CreateOrderHandler rw r w)) =
   counter_total statusSuccess w + counter_total statusFailure w + 1"
  by (simp add: counter_total_cong [OF CreateOrderHandler_counter] statusSuccess_def statusFailure_def)

lemma serve_createOrder_total:
  "counter_total statusSuccess (serve_createOrder qs w) +
   counter_total statusFailure (serve_createOrder qs w) =
   counter_total statusSuccess w + counter_total statusFailure w + int (length qs)"
proof (induction qs arbitrary: w)
  case Nil
  show ?case by simp
next
  case (Cons q qs)
  show ?case
    using Cons.IH [of "snd (CreateOrderHandler (fst q) (snd q) w)"]
      CreateOrderHandler_total [of "fst q" "snd q" w]
    by simp
qed

text \<open>
  Claim C1. Every \<^verbatim>\<open>createOrder\<close> request ends in exactly one of the outcomes success,
  DB failure and payment failure; it records exactly one measurement of 1 on the
  counter, labelled \<^verbatim>\<open>success\<close> on the success path and \<^verbatim>\<open>failure\<close> otherwise, and
  leaves the earlier measurements as they were; after \<open>N\<close> requests the totals of the
  two labels have grown by \<open>N\<close> together, so they sum to \<open>N\<close> from the start of the
  process.
\<close>

theorem createOrder_outcome_counted_once:
  "(\<exists>!oc. occurs oc w (snd (CreateOrderHandler rw r w))) \<and>
   ordersProcessedCounter (snd (CreateOrderHandler rw r w)) =
     ordersProcessedCounter w @
     [(if occurs Success w (snd (CreateOrderHandler rw r w)) then statusSuccess else statusFailure, 1)] \<and>
   counter_total statusSuccess (serve_createOrder qs w) +
   counter_total statusFailure (serve_createOrder qs w) =
     counter_total statusSuccess w + counter_total statusFailure w + int (length qs) \<and>
   counter_total statusSuccess (serve_createOrder qs boot) +
   counter_total statusFailure (serve_createOrder qs boot) = int (length qs)"
proof (intro conjI)
  show "\<exists>!oc. occurs oc w (snd (CreateOrderHandler rw r w))"
    unfolding occurs_CreateOrderHandler by blast
  show "ordersProcessedCounter (snd (CreateOrderHandler rw r w)) =
     ordersProcessedCounter w @
     [(if occurs Success w (snd (CreateOrderHandler rw r w)) then statusSuccess else statusFailure, 1)]"
    unfolding occurs_CreateOrderHandler CreateOrderHandler_counter by simp
  show "counter_total statusSuccess (serve_createOrder qs w) +
   counter_total statusFailure (serve_createOrder qs w) =
     counter_total statusSuccess w + counter_total statusFailure w + int (length qs)"
    by (rule serve_createOrder_total)
  show "counter_total statusSuccess (serve_createOrder qs boot) +
   counter_total statusFailure (serve_createOrder qs boot) = int (length qs)"
    unfolding serve_createOrder_total by (simp add: counter_total_def boot_def)
qed

section \<open>The counter belongs to the order pipeline\<close>

lemma ServeHTTP_counter:
  "ordersProcessedCounter (snd (ServeHTTP rt rw r w)) =
     ordersProcessedCounter w @
     (case rt of
        CreateOrder \<Rightarrow> [(if drawn 1 10 w = 0 then statusFailure else statusSuccess, 1)]
      | CheckInventory \<Rightarrow> [])"
  by (cases rt) (simp_all add: ServeHTTP_def CreateOrderHandler_counter CheckInventoryHandler_frame)

lemma serve_measurements:
  "length (ordersProcessedCounter (serve qs w)) =
     length (ordersProcessedCounter w) + length (filter (\<lambda>q. fst q = CreateOrder) qs)"
proof (induction qs arbitrary: w)
  case Nil
  show ?case by simp
next
  case (Cons q qs)
  show ?case
    unfolding serve.simps Cons.IH
    by (cases "fst q") (simp_all add: ServeHTTP_counter)
qed

lemma serve_total:
  "counter_total statusSuccess (serve qs w) + counter_total statusFailure (serve qs w) =
     counter_total statusSuccess w + counter_total statusFailure w +
     int (length (filter (\<lambda>q. fst q = CreateOrder) qs))"
proof (induction qs arbitrary: w)
  case Nil
  show ?case by simp
next
  case (Cons q qs)
  show ?case
    unfolding serve.simps Cons.IH
    by (cases "fst q")
      (simp_all add: counter_total_cong [OF ServeHTTP_counter] statusSuccess_def statusFailure_def)
qed

text \<open>
  Claim C9. The \<^verbatim>\<open>checkInventory\<close> handler records nothing on the counter of processed
  orders; in any sequence of requests to the two routes the counter holds one
  measurement per \<^verbatim>\<open>createOrder\<close> request, and the totals of the two labels grow by the
  number of \<^verbatim>\<open>createOrder\<close> requests alone.
\<close>

theorem inventory_never_counts:
  "ordersProcessedCounter (snd (CheckInventoryHandler rw r w)) = ordersProcessedCounter w \<and>
   length (ordersProcessedCounter (serve qs w)) =
     length (ordersProcessedCounter w) + length (filter (\<lambda>q. fst q = CreateOrder) qs) \<and>
   counter_total statusSuccess (serve qs w) + counter_total statusFailure (serve qs w) =
     counter_total statusSuccess w + counter_total statusFailure w +
     int (length (filter (\<lambda>q. fst q = CreateOrder) qs))"
  using serve_measurements [of qs w] serve_total [of qs w]
  by (simp add: CheckInventoryHandler_frame)

section \<open>The failure policy of the order pipeline\<close>

lemma CreateOrderHandler_effects:
  "effects (snd (CreateOrderHandler rw r w)) =
     effects w @
     [Draw 50 (drawn 0 50 w), Sleep (drawn 0 50 w + 30), Draw 10 (drawn 1 10 w)] @
     (if drawn 1 10 w = 0
      then Draw 2 (drawn 2 2 w) #
           (if drawn 2 2 w = 0
            then [Draw 40 (drawn 3 40 w), Sleep (drawn 3 40 w + 10)]
            else [Draw 100 (drawn 3 100 w), Sleep (drawn 3 100 w + 50)])
      else [Draw 100 (drawn 2 100 w), Sleep (drawn 2 100 w + 50),
            Draw 80 (drawn 3 80 w), Sleep (drawn 3 80 w + 40),
            Draw 1000 (drawn 4 1000 w)])"
  by (simp add: CreateOrderHandler_def Let_def split_beta rand_IntN_fst frames span_op_frame
        drawn_simps log_wrappers handleDBError_frame handlePaymentError_frame
      split: option.split)

lemma with_draws_frame:
  "rand_pos (with_draws ds w) = rand_pos w"
  "effects (with_draws ds w) = effects w"
  "spans (with_draws ds w) = spans w"
  "ordersProcessedCounter (with_draws ds w) = ordersProcessedCounter w"
  "JSONLogger (with_draws ds w) = JSONLogger w"
  "console (with_draws ds w) = console w"
  "files (with_draws ds w) = files w"
  "disk_ok (with_draws ds w) = disk_ok w"
  "clock (with_draws ds w) = clock w"
  "id_seq (with_draws ds w) = id_seq w"
  by (simp_all add: with_draws_def)

lemma drawn_with_draws:
  "k < length ds \<Longrightarrow> drawn k n (with_draws ds w) = ds ! k mod n"
  by (simp add: drawn_def with_draws_def)

lemma one_bucket_of_ten: "{b::int. 0 \<le> b \<and> b < 10 \<and> b mod 10 = 0} = {0}"
  by auto

lemma nine_buckets_of_ten: "{b::int. 0 \<le> b \<and> b < 10 \<and> b mod 10 \<noteq> 0} = {1..9}"
proof (rule set_eqI)
  fix b :: int
  show "b \<in> {b. 0 \<le> b \<and> b < 10 \<and> b mod 10 \<noteq> 0} \<longleftrightarrow> b \<in> {1..9}"
    by simp presburger
qed

lemma seeded_outcome:
  "occurs oc (with_draws [v, b, c] w) (snd (CreateOrderHandler rw r (with_draws [v, b, c] w))) \<longleftrightarrow>
     oc = (if b mod 10 \<noteq> 0 then Success else if c mod 2 = 0 then DBFailure else PaymentFailure)"
  unfolding occurs_CreateOrderHandler by (simp add: drawn_with_draws)

lemma coin_heads: "{c::int. 0 \<le> c \<and> c < 2 \<and> c mod 2 = 0} = {0}"
  by auto

lemma coin_tails: "{c::int. 0 \<le> c \<and> c < 2 \<and> c mod 2 \<noteq> 0} = {1}"
  by auto

text \<open>
  Claim C2. After the validation sleep the handler makes one draw over 10 buckets; the
  request takes the failure path exactly when that draw is 0, so 1 bucket of the 10
  fails and 9 succeed. Only on the failure path it makes a second, two-way draw: 0 is
  the DB failure, 1 the payment failure.
\<close>

theorem createOrder_failure_buckets:
  "new_effects w (snd (CreateOrderHandler rw r w)) =
     [Draw 50 (drawn 0 50 w), Sleep (drawn 0 50 w + 30), Draw 10 (drawn 1 10 w)] @
     (if drawn 1 10 w = 0
      then Draw 2 (drawn 2 2 w) #
           (if drawn 2 2 w = 0
            then [Draw 40 (drawn 3 40 w), Sleep (drawn 3 40 w + 10)]
            else [Draw 100 (drawn 3 100 w), Sleep (drawn 3 100 w + 50)])
      else [Draw 100 (drawn 2 100 w), Sleep (drawn 2 100 w + 50),
            Draw 80 (drawn 3 80 w), Sleep (drawn 3 80 w + 40),
            Draw 1000 (drawn 4 1000 w)]) \<and>
   (occurs Success w (snd (CreateOrderHandler rw r w)) \<longleftrightarrow> drawn 1 10 w \<noteq> 0) \<and>
   (occurs DBFailure w (snd (CreateOrderHandler rw r w)) \<longleftrightarrow>
      drawn 1 10 w = 0 \<and> drawn 2 2 w = 0) \<and>
   (occurs PaymentFailure w (snd (CreateOrderHandler rw r w)) \<longleftrightarrow>
      drawn 1 10 w = 0 \<and> drawn 2 2 w = 1) \<and>
   card {b. 0 \<le> b \<and> b < 10 \<and>
            \<not> occurs Success (with_draws [v, b, c] w)
                (snd (CreateOrderHandler rw r (with_draws [v, b, c] w)))} = 1 \<and>
   card {b. 0 \<le> b \<and> b < 10 \<and>
            occurs Success (with_draws [v, b, c] w)
              (snd (CreateOrderHandler rw r (with_draws [v, b, c] w)))} = 9 \<and>
   {c. 0 \<le> c \<and> c < 2 \<and>
       occurs DBFailure (with_draws [v, 0, c] w)
         (snd (CreateOrderHandler rw r (with_draws [v, 0, c] w)))} = {0} \<and>
   {c. 0 \<le> c \<and> c < 2 \<and>
       occurs PaymentFailure (with_draws [v, 0, c] w)
         (snd (CreateOrderHandler rw r (with_draws [v, 0, c] w)))} = {1}"
proof (intro conjI)
  show "new_effects w (snd (CreateOrderHandler rw r w)) =
     [Draw 50 (drawn 0 50 w), Sleep (drawn 0 50 w + 30), Draw 10 (drawn 1 10 w)] @
     (if drawn 1 10 w = 0
      then Draw 2 (drawn 2 2 w) #
           (if drawn 2 2 w = 0
            then [Draw 40 (drawn 3 40 w), Sleep (drawn 3 40 w + 10)]
            else [Draw 100 (drawn 3 100 w), Sleep (drawn 3 100 w + 50)])
      else [Draw 100 (drawn 2 100 w), Sleep (drawn 2 100 w + 50),
            Draw 80 (drawn 3 80 w), Sleep (drawn 3 80 w + 40),
            Draw 1000 (drawn 4 1000 w)])"
    unfolding new_effects_def CreateOrderHandler_effects by simp
  show "occurs Success w (snd (CreateOrderHandler rw r w)) \<longleftrightarrow> drawn 1 10 w \<noteq> 0"
    unfolding occurs_CreateOrderHandler by simp
  show "occurs DBFailure w (snd (CreateOrderHandler rw r w)) \<longleftrightarrow>
      drawn 1 10 w = 0 \<and> drawn 2 2 w = 0"
    unfolding occurs_CreateOrderHandler by simp
  have two: "x mod 2 \<noteq> 0 \<longleftrightarrow> x mod 2 = 1" for x :: int by presburger
  show "occurs PaymentFailure w (snd (CreateOrderHandler rw r w)) \<longleftrightarrow>
      drawn 1 10 w = 0 \<and> drawn 2 2 w = 1"
    unfolding occurs_CreateOrderHandler drawn_def using two by auto
  have "{b. 0 \<le> b \<and> b < 10 \<and>
            \<not> occurs Success (with_draws [v, b, c] w)
                (snd (CreateOrderHandler rw r (with_draws [v, b, c] w)))} =
        {b. 0 \<le> b \<and> b < 10 \<and> b mod 10 = 0}"
    unfolding seeded_outcome by auto
  then show "card {b. 0 \<le> b \<and> b < 10 \<and>
            \<not> occurs Success (with_draws [v, b, c] w)
                (snd (CreateOrderHandler rw r (with_draws [v, b, c] w)))} = 1"
    unfolding one_bucket_of_ten by simp
  have "{b. 0 \<le> b \<and> b < 10 \<and>
            occurs Success (with_draws [v, b, c] w)
              (snd (CreateOrderHandler rw r (with_draws [v, b, c] w)))} =
        {b. 0 \<le> b \<and> b < 10 \<and> b mod 10 \<noteq> 0}"
    unfolding seeded_outcome by auto
  then show "card {b. 0 \<le> b \<and> b < 10 \<and>
            occurs Success (with_draws [v, b, c] w)
              (snd (CreateOrderHandler rw r (with_draws [v, b, c] w)))} = 9"
    unfolding nine_buckets_of_ten by simp
  have "{c. 0 \<le> c \<and> c < 2 \<and>
       occurs DBFailure (with_draws [v, 0, c] w)
         (snd (CreateOrderHandler rw r (with_draws [v, 0, c] w)))} =
        {c. 0 \<le> c \<and> c < 2 \<and> c mod 2 = 0}"
    unfolding seeded_outcome by auto
  then show "{c. 0 \<le> c \<and> c < 2 \<and>
       occurs DBFailure (with_draws [v, 0, c] w)
         (snd (CreateOrderHandler rw r (with_draws [v, 0, c] w)))} = {0}"
    unfolding coin_heads .
  have "{c. 0 \<le> c \<and> c < 2 \<and>
       occurs PaymentFailure (with_draws [v, 0, c] w)
         (snd (CreateOrderHandler rw r (with_draws [v, 0, c] w)))} =
        {c. 0 \<le> c \<and> c < 2 \<and> c mod 2 \<noteq> 0}"
    unfolding seeded_outcome by auto
  then show "{c. 0 \<le> c \<and> c < 2 \<and>
       occurs PaymentFailure (with_draws [v, 0, c] w)
         (snd (CreateOrderHandler rw r (with_draws [v, 0, c] w)))} = {1}"
    unfolding coin_tails .
qed

section \<open>The failure branches and the root span of the request\<close>

lemma CreateOrderHandler_failure_keeps_spans:
  assumes "drawn 1 10 w = 0"
  shows "take (length (spans w)) (spans (snd (CreateOrderHandler rw r w))) = spans w"
proof (cases "drawn 2 2 w = 0")
  case True
  show ?thesis
    by (simp add: CreateOrderHandler_db [OF assms True] handleDBError_spans frames)
next
  case False
  show ?thesis
    by (simp add: CreateOrderHandler_payment [OF assms False] handlePaymentError_spans
          ok_stage_spans frames)
qed

lemma logging_init_boot:
  "spans (logging_init boot) = []"
  "JSONLogger (logging_init boot) = \<lparr>logger_f = Some ''app.log'', encoder = Some ''app.log''\<rparr>"
  "console (logging_init boot) = []"
  "files (logging_init boot) = [''app.log'' \<mapsto> []]"
  "disk_ok (logging_init boot)"
  "id_seq (logging_init boot) = 0"
  "clock (logging_init boot) = 0"
  "effects (logging_init boot) = []"
  "ordersProcessedCounter (logging_init boot) = []"
  "rand_pos (logging_init boot) = 0"
  by (simp_all add: logging_init_def NewStructured_def os_OpenFile_def boot_def Let_def)

lemma inbound_boot:
  "fst (inbound route (logging_init boot)) = \<lparr>Context = Some 0\<rparr>"
  "spans (snd (inbound route (logging_init boot))) =
     [\<lparr>span_name = route, parent_id = None, span_context = \<lparr>TraceID = 2, SpanID = 1\<rparr>,
       status = Unset, status_message = [], recorded_error = None, events = [],
       start_time = 0, end_time = None\<rparr>]"
  "JSONLogger (snd (inbound route (logging_init boot))) =
     \<lparr>logger_f = Some ''app.log'', encoder = Some ''app.log''\<rparr>"
  "console (snd (inbound route (logging_init boot))) = []"
  "files (snd (inbound route (logging_init boot))) = [''app.log'' \<mapsto> []]"
  "disk_ok (snd (inbound route (logging_init boot)))"
  "clock (snd (inbound route (logging_init boot))) = 0"
  "effects (snd (inbound route (logging_init boot))) = []"
  "ordersProcessedCounter (snd (inbound route (logging_init boot))) = []"
  "rand_pos (snd (inbound route (logging_init boot))) = 0"
  by (simp_all add: inbound_def split_beta tracer_Start_fst tracer_Start_spans frames
        logging_init_boot new_span_def Let_def SpanFromContext_def Span_SpanContext_def
        noopSpanContext_def IsValid_def)

text \<open>
  Claim C3, at a request that takes the DB-failure branch (the 10-way draw and the
  2-way draw both return 0): the handler opens \<^verbatim>\<open>db.insert_order\<close> and leaves it with
  status Error, but the root span of the request keeps the status Unset. The status
  that \<^verbatim>\<open>handleRequestError\<close> means for the request span goes to the span of the context
  it is given, which is the child span again.
\<close>

theorem db_failure_root_span_stays_unset:
  "map (\<lambda>s. (span_name s, status s))
     (spans (snd (CreateOrderHandler fresh_writer (fst order_request)
                    (with_draws [5, 0, 0, 7] (snd order_request))))) =
   [(''POST /createOrder'', Unset), (''db.insert_order'', Error)]"
proof -
  let ?w = "with_draws [5, 0, 0, 7] (snd order_request)"
  have b: "drawn 1 10 ?w = 0" and c: "drawn 2 2 ?w = 0"
    by (simp_all add: drawn_with_draws)
  show ?thesis
    unfolding CreateOrderHandler_db [OF b c]
    by (simp add: handleDBError_spans frames with_draws_frame order_request_def inbound_boot
          new_span_fields)
qed

text \<open>
  Claim C4, at a request that takes the payment-failure branch (the 10-way draw returns
  0, the 2-way draw 1): \<^verbatim>\<open>db.insert_order\<close> ends with status Ok, \<^verbatim>\<open>payment.process\<close>
  with status Error, and the root span of the request keeps the status Unset.
\<close>

theorem payment_failure_root_span_stays_unset:
  "map (\<lambda>s. (span_name s, status s))
     (spans (snd (CreateOrderHandler fresh_writer (fst order_request)
                    (with_draws [5, 0, 1, 20] (snd order_request))))) =
   [(''POST /createOrder'', Unset), (''db.insert_order'', Ok), (''payment.process'', Error)]"
proof -
  let ?w = "with_draws [5, 0, 1, 20] (snd order_request)"
  have b: "drawn 1 10 ?w = 0" and c: "drawn 2 2 ?w \<noteq> 0"
    by (simp_all add: drawn_with_draws)
  show ?thesis
    unfolding CreateOrderHandler_payment [OF b c]
    by (simp add: handlePaymentError_spans ok_stage_spans frames with_draws_frame
          order_request_def inbound_boot new_span_fields)
qed

section \<open>The two log sinks\<close>

lemma Logger_log_at:
  assumes "h < length (spans w)" and "recording (spans w ! h)"
  shows "Logger_log (Some h) level message attrs w =
           w\<lparr>spans := (spans w)[h := (spans w ! h)
                   \<lparr>events := events (spans w ! h) @ [log_event level message attrs]\<rparr>]\<rparr>"
  using assms
  by (simp add: Logger_log_def Let_def SpanFromContext_def Span_SpanContext_def recording_def
        Span_AddEvent_def span_update_def log_event_def attribute_String_def)

lemma Logger_log_fallback:
  assumes "\<not> IsValid (Span_SpanContext (SpanFromContext ctx) w)"
  shows "Logger_log ctx level message attrs w =
           w\<lparr>console := console w @ [fallback_line level message attrs]\<rparr>"
  using assms by (simp add: Logger_log_def Let_def log_Printf_def fallback_line_def)

lemma StructuredLogger_write_fallback:
  assumes "encoder l = None"
  shows "StructuredLogger_write l ctx level message attrs w =
           w\<lparr>console := console w @ [fallback_line level message attrs]\<rparr>"
  using assms by (simp add: StructuredLogger_write_def log_Printf_def fallback_line_def)

lemma entry_as_log_entry:
  "(if IsValid sc
    then [''timestamp'' \<mapsto> AnyTime t, ''level'' \<mapsto> AnyString level,
          ''message'' \<mapsto> AnyString message, ''attributes'' \<mapsto> AnyMap (attrsToMap attrs)]
         (''trace_id'' \<mapsto> AnyString (TraceID_String (TraceID sc)),
          ''span_id'' \<mapsto> AnyString (SpanID_String (SpanID sc)))
    else [''timestamp'' \<mapsto> AnyTime t, ''level'' \<mapsto> AnyString level,
          ''message'' \<mapsto> AnyString message, ''attributes'' \<mapsto> AnyMap (attrsToMap attrs)]) =
   log_entry sc t level message attrs"
  by (rule ext) (simp add: log_entry_def)

lemma json_supported_log_entry:
  "json_supported ks (log_entry sc t level message attrs) =
     list_all (\<lambda>k. case attrsToMap attrs k of
                       Some (AnyFloat64 x) \<Rightarrow> float64_finite x
                     | _ \<Rightarrow> True) ks"
  by (simp add: json_supported_def log_entry_def)

lemma StructuredLogger_write_file:
  assumes "encoder l = Some p"
  shows "StructuredLogger_write l ctx level message attrs w =
           (if json_supported (map fst attrs)
                 (log_entry (Span_SpanContext (SpanFromContext ctx) w) (clock w)
                    level message attrs) \<and> disk_ok w
            then w\<lparr>files := (files w)(p \<mapsto> lines p w @
                    [log_entry (Span_SpanContext (SpanFromContext ctx) w) (clock w)
                       level message attrs])\<rparr>
            else w)"
  using assms
  by (simp add: StructuredLogger_write_def Let_def file_Encode_def lines_def entry_as_log_entry)

lemma log_entry_fields:
  "log_entry sc t level message attrs ''timestamp'' = Some (AnyTime t)"
  "log_entry sc t level message attrs ''level'' = Some (AnyString level)"
  "log_entry sc t level message attrs ''message'' = Some (AnyString message)"
  "log_entry sc t level message attrs ''attributes'' = Some (AnyMap (attrsToMap attrs))"
  "log_entry sc t level message attrs ''trace_id'' =
     (if IsValid sc then Some (AnyString (TraceID_String (TraceID sc))) else None)"
  "log_entry sc t level message attrs ''span_id'' =
     (if IsValid sc then Some (AnyString (SpanID_String (SpanID sc))) else None)"
  by (simp_all add: log_entry_def)

text \<open>
  Claim C7. A log call whose context carries a valid span that is still open appends
  to that span exactly one event, named \<^verbatim>\<open>log\<close>, whose attributes are \<^verbatim>\<open>log.level\<close>, then
  \<^verbatim>\<open>log.message\<close>, then the caller's attributes in their order; the other spans, the
  earlier events of the span and the console are left as they were.
\<close>

theorem log_appends_one_event:
  assumes "h < length (spans w)" and "recording (spans w ! h)"
  shows "spans (Logger_log (Some h) level message attrs w) =
           (spans w)[h := (spans w ! h)\<lparr>events := events (spans w ! h) @
              [\<lparr>event_name = ''log'',
                event_attrs = (''log.level'', STRING level) #
                              (''log.message'', STRING message) # attrs\<rparr>]\<rparr>] \<and>
         new_events h w (Logger_log (Some h) level message attrs w) =
           [\<lparr>event_name = ''log'',
             event_attrs = (''log.level'', STRING level) #
                           (''log.message'', STRING message) # attrs\<rparr>] \<and>
         new_events h w (Logger_Info (Some h) message attrs w) =
           [\<lparr>event_name = ''log'',
             event_attrs = (''log.level'', STRING ''INFO'') #
                           (''log.message'', STRING message) # attrs\<rparr>] \<and>
         new_events h w (Logger_Error (Some h) message attrs w) =
           [\<lparr>event_name = ''log'',
             event_attrs = (''log.level'', STRING ''ERROR'') #
                           (''log.message'', STRING message) # attrs\<rparr>] \<and>
         console (Logger_log (Some h) level message attrs w) = console w"
  using assms
  by (simp add: Logger_Info_def Logger_Error_def Logger_log_at new_events_def log_event_def
        LevelInfo_def LevelError_def)

theorem log_appends_one_event_witness:
  "0 < length (spans (snd order_request)) \<and> recording (spans (snd order_request) ! 0) \<and>
   events (spans (Logger_log (Some 0) LevelError ''database operation failed''
                    [(''error.stage'', STRING ''database'')] (snd order_request)) ! 0) =
     [\<lparr>event_name = ''log'',
       event_attrs = [(''log.level'', STRING ''ERROR''),
                      (''log.message'', STRING ''database operation failed''),
                      (''error.stage'', STRING ''database'')]\<rparr>]"
proof -
  have h: "0 < length (spans (snd order_request))"
    and r: "recording (spans (snd order_request) ! 0)"
    by (simp_all add: order_request_def inbound_boot recording_def IsValid_def)
  from log_appends_one_event [OF h r, of LevelError "''database operation failed''"
      "[(''error.stage'', STRING ''database'')]"]
  show ?thesis
    using h r by (simp add: order_request_def inbound_boot LevelError_def)
qed

section \<open>A log file that cannot be opened\<close>

lemma NewStructured_unopenable:
  assumes "open_error w (if env w ''APP_LOG_FILE'' = [] then ''app.log''
                         else env w ''APP_LOG_FILE'') = Some err"
  shows "NewStructured w =
           (\<lparr>logger_f = None, encoder = None\<rparr>,
            w\<lparr>console := console w @
                 [(''[WARN] failed to open log file %q: %v'',
                   [ArgString (if env w ''APP_LOG_FILE'' = [] then ''app.log''
                               else env w ''APP_LOG_FILE''), ArgString err])]\<rparr>)"
  using assms by (simp add: NewStructured_def Let_def os_OpenFile_def log_Printf_def)

lemma logging_init_meter: "meter_error (logging_init w) = meter_error w"
  by (simp add: logging_init_def NewStructured_def Let_def os_OpenFile_def log_Printf_def
      split: option.split)

lemma package_init_aborts: "isl (package_init w) \<longleftrightarrow> meter_error w \<noteq> None"
  by (simp add: package_init_def handlers_init_def logging_init_meter split: option.split)

text \<open>
  Claim C8. When the log file cannot be opened, \<^verbatim>\<open>NewStructured\<close> writes exactly one
  warning to the console and returns a logger without an encoder; package
  initialisation goes on (it ends the process only when the counter cannot be created);
  and every later write, Info or Error on that logger adds to the console the one line
  that the trace-attached logger writes as its fallback, and touches nothing else.
\<close>

theorem unopenable_log_file_degrades_to_console:
  assumes "open_error w (if env w ''APP_LOG_FILE'' = [] then ''app.log''
                         else env w ''APP_LOG_FILE'') = Some err"
  shows "new_console w (snd (NewStructured w)) =
           [(''[WARN] failed to open log file %q: %v'',
             [ArgString (if env w ''APP_LOG_FILE'' = [] then ''app.log''
                         else env w ''APP_LOG_FILE''), ArgString err])] \<and>
         fst (NewStructured w) = \<lparr>logger_f = None, encoder = None\<rparr> \<and>
         files (snd (NewStructured w)) = files w \<and>
         (isl (package_init w) \<longleftrightarrow> meter_error w \<noteq> None) \<and>
         StructuredLogger_write (fst (NewStructured w)) ctx level message attrs w' =
           w'\<lparr>console := console w' @ [(''[%s] %s %v'',
                 [ArgString level, ArgString message, ArgAttrs attrs])]\<rparr> \<and>
         StructuredLogger_Info (fst (NewStructured w)) ctx message attrs w' =
           w'\<lparr>console := console w' @ [(''[%s] %s %v'',
                 [ArgString ''INFO'', ArgString message, ArgAttrs attrs])]\<rparr> \<and>
         StructuredLogger_Error (fst (NewStructured w)) ctx message attrs w' =
           w'\<lparr>console := console w' @ [(''[%s] %s %v'',
                 [ArgString ''ERROR'', ArgString message, ArgAttrs attrs])]\<rparr> \<and>
         StructuredLogger_write (fst (NewStructured w)) ctx level message attrs w' =
           Logger_log None level message attrs w'"
  unfolding NewStructured_unopenable [OF assms] package_init_aborts
  by (simp add: new_console_def StructuredLogger_Info_def StructuredLogger_Error_def
        StructuredLogger_write_fallback Logger_log_fallback SpanFromContext_def
        Span_SpanContext_def noopSpanContext_def IsValid_def fallback_line_def
        LevelInfo_def LevelError_def)

theorem unopenable_log_file_degrades_to_console_witness:
  "open_error boot_no_log_file ''app.log'' = Some ''permission denied'' \<and>
   console (snd (NewStructured boot_no_log_file)) =
     [(''[WARN] failed to open log file %q: %v'',
       [ArgString ''app.log'', ArgString ''permission denied''])] \<and>
   \<not> isl (package_init boot_no_log_file) \<and>
   console (StructuredLogger_Info (fst (NewStructured boot_no_log_file)) None
              ''Order created successfully'' [(''order.id'', INT64 7)]
              (snd (NewStructured boot_no_log_file))) =
     [(''[WARN] failed to open log file %q: %v'',
       [ArgString ''app.log'', ArgString ''permission denied'']),
      (''[%s] %s %v'', [ArgString ''INFO'', ArgString ''Order created successfully'',
                        ArgAttrs [(''order.id'', INT64 7)]])]"
proof -
  have e: "env boot_no_log_file ''APP_LOG_FILE'' = []"
    and m: "meter_error boot_no_log_file = None"
    and c: "console boot_no_log_file = []"
    by (simp_all add: boot_no_log_file_def boot_def)
  have h: "open_error boot_no_log_file
             (if env boot_no_log_file ''APP_LOG_FILE'' = [] then ''app.log''
              else env boot_no_log_file ''APP_LOG_FILE'') = Some ''permission denied''"
    by (simp add: boot_no_log_file_def boot_def)
  note t = unopenable_log_file_degrades_to_console [OF h, where ctx = None
      and level = LevelInfo
      and message = "''Order created successfully''" and attrs = "[(''order.id'', INT64 7)]"
      and w' = "snd (NewStructured boot_no_log_file)"]
  have 1: "new_console boot_no_log_file (snd (NewStructured boot_no_log_file)) =
             [(''[WARN] failed to open log file %q: %v'',
               [ArgString (if env boot_no_log_file ''APP_LOG_FILE'' = [] then ''app.log''
                           else env boot_no_log_file ''APP_LOG_FILE''),
                ArgString ''permission denied''])]"
    using t by (elim conjE) assumption
  have 2: "isl (package_init boot_no_log_file) \<longleftrightarrow> meter_error boot_no_log_file \<noteq> None"
    using t by (elim conjE) assumption
  have 3: "StructuredLogger_Info (fst (NewStructured boot_no_log_file)) None
             ''Order created successfully'' [(''order.id'', INT64 7)]
             (snd (NewStructured boot_no_log_file)) =
           (snd (NewStructured boot_no_log_file))
             \<lparr>console := console (snd (NewStructured boot_no_log_file)) @
                [(''[%s] %s %v'', [ArgString ''INFO'', ArgString ''Order created successfully'',
                                  ArgAttrs [(''order.id'', INT64 7)]])]\<rparr>"
    using t by (elim conjE) assumption
  have c1: "console (snd (NewStructured boot_no_log_file)) =
              [(''[WARN] failed to open log file %q: %v'',
                [ArgString ''app.log'', ArgString ''permission denied''])]"
    using 1 by (simp add: new_console_def c e)
  have c2: "\<not> isl (package_init boot_no_log_file)"
    using 2 by (simp add: m)
  show ?thesis
    unfolding 3 using h c1 c2 by (simp add: e)
qed

section \<open>Trace identifiers in the two sinks\<close>

lemma logging_init_boot_no_log_file:
  "spans (logging_init boot_no_log_file) = []"
  "JSONLogger (logging_init boot_no_log_file) = \<lparr>logger_f = None, encoder = None\<rparr>"
  "console (logging_init boot_no_log_file) =
     [(''[WARN] failed to open log file %q: %v'',
       [ArgString ''app.log'', ArgString ''permission denied''])]"
  "files (logging_init boot_no_log_file) = Map.empty"
  "id_seq (logging_init boot_no_log_file) = 0"
  "clock (logging_init boot_no_log_file) = 0"
  by (simp_all add: logging_init_def NewStructured_def os_OpenFile_def boot_no_log_file_def
        boot_def Let_def log_Printf_def)

lemma degraded_request_world:
  "fst degraded_request = \<lparr>Context = Some 0\<rparr>"
  "spans (snd degraded_request) =
     [\<lparr>span_name = ''POST /createOrder'', parent_id = None,
       span_context = \<lparr>TraceID = 2, SpanID = 1\<rparr>,
       status = Unset, status_message = [], recorded_error = None, events = [],
       start_time = 0, end_time = None\<rparr>]"
  "JSONLogger (snd degraded_request) = \<lparr>logger_f = None, encoder = None\<rparr>"
  "console (snd degraded_request) =
     [(''[WARN] failed to open log file %q: %v'',
       [ArgString ''app.log'', ArgString ''permission denied''])]"
  "files (snd degraded_request) = Map.empty"
  by (simp_all add: degraded_request_def inbound_def split_beta tracer_Start_fst
        tracer_Start_spans frames logging_init_boot_no_log_file new_span_def Let_def
        SpanFromContext_def Span_SpanContext_def noopSpanContext_def IsValid_def)

text \<open>
  Claim C5 fails as stated. A structured log call with no span in the context, on a
  logger whose file is open, appends its line to the file and writes nothing to the
  console: that record does not appear only through the console fallback. And a
  structured log call under a valid span, on a logger whose file could not be opened,
  writes the console fallback and no file line: that record carries the identifiers
  in no JSON line.
\<close>

theorem log_sinks_counterexample:
  "\<not> IsValid (Span_SpanContext (SpanFromContext None) (logging_init boot)) \<and>
   length (lines ''app.log'' (logging_init boot)) = 0 \<and>
   length (lines ''app.log''
     (StructuredLogger_Info (JSONLogger (logging_init boot)) None ''hello'' []
        (logging_init boot))) = 1 \<and>
   console (StructuredLogger_Info (JSONLogger (logging_init boot)) None ''hello'' []
              (logging_init boot)) = [] \<and>
   IsValid (Span_SpanContext (SpanFromContext (Context (fst degraded_request)))
              (snd degraded_request)) \<and>
   files (StructuredLogger_Info (JSONLogger (snd degraded_request))
            (Context (fst degraded_request)) ''hello'' [] (snd degraded_request))
     ''app.log'' = None \<and>
   new_console (snd degraded_request)
     (StructuredLogger_Info (JSONLogger (snd degraded_request))
        (Context (fst degraded_request)) ''hello'' [] (snd degraded_request)) =
     [(''[%s] %s %v'', [ArgString ''INFO'', ArgString ''hello'', ArgAttrs []])]"
  by (simp add: StructuredLogger_Info_def StructuredLogger_write_file
        StructuredLogger_write_fallback logging_init_boot degraded_request_world lines_def
        new_console_def fallback_line_def LevelInfo_def SpanFromContext_def
        Span_SpanContext_def noopSpanContext_def IsValid_def json_supported_log_entry)

text \<open>
  Claim C5 as amended. With a valid, open span in the context, the trace-attached
  logger appends the record as one event of that span and writes nothing to the
  console, and the line that a structured logger with an open file appends carries the
  trace and span identifiers of that span in hex. With no valid span in the context,
  the trace-attached logger writes only the console fallback, and a structured logger
  with an open file still appends its line, which carries neither identifier. A
  structured logger without a file writes the console fallback in both cases. The
  line is appended when the entry can be marshalled (no attribute ends as a NaN or
  infinite float) and the disk takes the write; otherwise the call on an open file
  writes no line, and when the entry cannot be marshalled it changes nothing at all.
\<close>

theorem log_record_identifiers:
  "(h < length (spans w) \<and> recording (spans w ! h) \<longrightarrow>
      new_events h w (Logger_log (Some h) level message attrs w) =
        [log_event level message attrs] \<and>
      span_context (spans (Logger_log (Some h) level message attrs w) ! h) =
        Span_SpanContext (SpanFromContext (Some h)) w \<and>
      IsValid (Span_SpanContext (SpanFromContext (Some h)) w) \<and>
      console (Logger_log (Some h) level message attrs w) = console w) \<and>
   (\<not> IsValid (Span_SpanContext (SpanFromContext ctx) w) \<longrightarrow>
      spans (Logger_log ctx level message attrs w) = spans w \<and>
      new_console w (Logger_log ctx level message attrs w) =
        [fallback_line level message attrs]) \<and>
   (encoder l = Some p \<longrightarrow>
      new_lines p w (StructuredLogger_write l ctx level message attrs w) =
        (if json_supported (map fst attrs)
              (log_entry (Span_SpanContext (SpanFromContext ctx) w) (clock w)
                 level message attrs) \<and> disk_ok w
         then [log_entry (Span_SpanContext (SpanFromContext ctx) w) (clock w)
                 level message attrs]
         else []) \<and>
      console (StructuredLogger_write l ctx level message attrs w) = console w) \<and>
   (encoder l = Some p \<and>
    \<not> json_supported (map fst attrs)
        (log_entry (Span_SpanContext (SpanFromContext ctx) w) (clock w)
           level message attrs) \<longrightarrow>
      StructuredLogger_write l ctx level message attrs w = w) \<and>
   json_supported (map fst attrs) (log_entry sc t level message attrs) =
     list_all (\<lambda>a. case attrsToMap attrs (fst a) of
                       Some (AnyFloat64 x) \<Rightarrow> float64_finite x
                     | _ \<Rightarrow> True) attrs \<and>
   (encoder l = None \<longrightarrow>
      files (StructuredLogger_write l ctx level message attrs w) = files w \<and>
      new_console w (StructuredLogger_write l ctx level message attrs w) =
        [fallback_line level message attrs]) \<and>
   (IsValid sc \<longrightarrow>
      log_entry sc t level message attrs ''trace_id'' =
        Some (AnyString (TraceID_String (TraceID sc))) \<and>
      log_entry sc t level message attrs ''span_id'' =
        Some (AnyString (SpanID_String (SpanID sc)))) \<and>
   (\<not> IsValid sc \<longrightarrow>
      log_entry sc t level message attrs ''trace_id'' = None \<and>
      log_entry sc t level message attrs ''span_id'' = None)"
proof (intro conjI impI)
  assume a: "h < length (spans w) \<and> recording (spans w ! h)"
  then show "new_events h w (Logger_log (Some h) level message attrs w) =
      [log_event level message attrs]"
    by (simp add: Logger_log_at new_events_def)
  from a show "span_context (spans (Logger_log (Some h) level message attrs w) ! h) =
      Span_SpanContext (SpanFromContext (Some h)) w"
    by (simp add: Logger_log_at SpanFromContext_def Span_SpanContext_def)
  from a show "IsValid (Span_SpanContext (SpanFromContext (Some h)) w)"
    by (simp add: SpanFromContext_def Span_SpanContext_def recording_def)
  from a show "console (Logger_log (Some h) level message attrs w) = console w"
    by (simp add: Logger_log_at)
next
  assume a: "\<not> IsValid (Span_SpanContext (SpanFromContext ctx) w)"
  then show "spans (Logger_log ctx level message attrs w) = spans w"
    by (simp add: Logger_log_fallback)
  from a show "new_console w (Logger_log ctx level message attrs w) =
      [fallback_line level message attrs]"
    by (simp add: Logger_log_fallback new_console_def)
next
  assume a: "encoder l = Some p"
  then show "new_lines p w (StructuredLogger_write l ctx level message attrs w) =
      (if json_supported (map fst attrs)
            (log_entry (Span_SpanContext (SpanFromContext ctx) w) (clock w)
               level message attrs) \<and> disk_ok w
       then [log_entry (Span_SpanContext (SpanFromContext ctx) w) (clock w)
               level message attrs]
       else [])"
    by (simp add: StructuredLogger_write_file new_lines_def lines_def)
  from a show "console (StructuredLogger_write l ctx level message attrs w) = console w"
    by (simp add: StructuredLogger_write_file)
next
  assume "encoder l = Some p \<and>
    \<not> json_supported (map fst attrs)
        (log_entry (Span_SpanContext (SpanFromContext ctx) w) (clock w)
           level message attrs)"
  then show "StructuredLogger_write l ctx level message attrs w = w"
    by (simp add: StructuredLogger_write_file)
next
  show "json_supported (map fst attrs) (log_entry sc t level message attrs) =
     list_all (\<lambda>a. case attrsToMap attrs (fst a) of
                       Some (AnyFloat64 x) \<Rightarrow> float64_finite x
                     | _ \<Rightarrow> True) attrs"
    by (simp add: json_supported_log_entry list_all_iff)
next
  assume a: "encoder l = None"
  then show "files (StructuredLogger_write l ctx level message attrs w) = files w"
    by (simp add: StructuredLogger_write_fallback)
  from a show "new_console w (StructuredLogger_write l ctx level message attrs w) =
      [fallback_line level message attrs]"
    by (simp add: StructuredLogger_write_fallback new_console_def)
next
  assume "IsValid sc"
  then show "log_entry sc t level message attrs ''trace_id'' =
      Some (AnyString (TraceID_String (TraceID sc)))"
    and "log_entry sc t level message attrs ''span_id'' =
      Some (AnyString (SpanID_String (SpanID sc)))"
    by (simp_all add: log_entry_fields)
next
  assume "\<not> IsValid sc"
  then show "log_entry sc t level message attrs ''trace_id'' = None"
    and "log_entry sc t level message attrs ''span_id'' = None"
    by (simp_all add: log_entry_fields)
qed


theorem log_record_identifiers_witness:
  "(0 < length (spans (snd order_request)) \<and> recording (spans (snd order_request) ! 0)) \<and>
   new_events 0 (snd order_request)
     (Logger_log (Some 0) LevelInfo ''hello'' [] (snd order_request)) =
     [log_event LevelInfo ''hello'' []] \<and>
   encoder (JSONLogger (snd order_request)) = Some ''app.log'' \<and>
   new_lines ''app.log'' (snd order_request)
     (StructuredLogger_write (JSONLogger (snd order_request)) (Some 0) LevelInfo ''hello'' []
        (snd order_request)) =
     [log_entry \<lparr>TraceID = 2, SpanID = 1\<rparr> 0 LevelInfo ''hello'' []] \<and>
   IsValid \<lparr>TraceID = 2, SpanID = 1\<rparr> \<and>
   log_entry \<lparr>TraceID = 2, SpanID = 1\<rparr> 0 LevelInfo ''hello'' [] ''trace_id'' =
     Some (AnyString (TraceID_String 2)) \<and>
   \<not> IsValid (Span_SpanContext (SpanFromContext None) (snd degraded_request)) \<and>
   new_console (snd degraded_request)
     (Logger_log None LevelInfo ''hello'' [] (snd degraded_request)) =
     [fallback_line LevelInfo ''hello'' []] \<and>
   encoder (JSONLogger (snd degraded_request)) = None \<and>
   new_console (snd degraded_request)
     (StructuredLogger_write (JSONLogger (snd degraded_request)) None LevelInfo ''hello'' []
        (snd degraded_request)) =
     [fallback_line LevelInfo ''hello'' []] \<and>
   \<not> IsValid noopSpanContext \<and>
   log_entry noopSpanContext 0 LevelInfo ''hello'' [] ''trace_id'' = None \<and>
   \<not> json_supported (map fst [(''ratio'', FLOAT64 9221120237041090561)])
       (log_entry (Span_SpanContext (SpanFromContext (Some 0)) (snd order_request))
          (clock (snd order_request)) LevelInfo ''hello''
          [(''ratio'', FLOAT64 9221120237041090561)]) \<and>
   StructuredLogger_write (JSONLogger (snd order_request)) (Some 0) LevelInfo ''hello''
     [(''ratio'', FLOAT64 9221120237041090561)] (snd order_request) = snd order_request"
proof -
  let ?w = "snd order_request" and ?d = "snd degraded_request"
  let ?sc = "\<lparr>TraceID = 2, SpanID = 1\<rparr>"
  let ?nan = "[(''ratio'', FLOAT64 9221120237041090561)]"
  note t1 = log_record_identifiers [where h = 0 and w = ?w and ctx = "Some 0"
      and l = "JSONLogger ?w" and p = "''app.log''" and sc = ?sc and t = 0
      and level = LevelInfo and message = "''hello''" and attrs = "[]"]
  note t2 = log_record_identifiers [where h = 0 and w = ?d and ctx = None
      and l = "JSONLogger ?d" and p = "''app.log''" and sc = noopSpanContext and t = 0
      and level = LevelInfo and message = "''hello''" and attrs = "[]"]
  note t3 = log_record_identifiers [where h = 0 and w = ?w and ctx = "Some 0"
      and l = "JSONLogger ?w" and p = "''app.log''" and sc = ?sc and t = 0
      and level = LevelInfo and message = "''hello''" and attrs = ?nan]
  have n: "\<not> float64_finite 9221120237041090561"
    by (simp add: float64_finite_def)
  have h1: "0 < length (spans ?w) \<and> recording (spans ?w ! 0)"
    by (simp add: order_request_def inbound_boot recording_def IsValid_def)
  have h2: "encoder (JSONLogger ?w) = Some ''app.log''"
    by (simp add: order_request_def inbound_boot)
  have h3: "IsValid ?sc" by (simp add: IsValid_def)
  have h4: "\<not> IsValid (Span_SpanContext (SpanFromContext None) ?d)"
    by (simp add: SpanFromContext_def Span_SpanContext_def noopSpanContext_def IsValid_def)
  have h5: "encoder (JSONLogger ?d) = None"
    by (simp add: degraded_request_world)
  have h6: "\<not> IsValid noopSpanContext"
    by (simp add: noopSpanContext_def IsValid_def)
  have h7: "\<not> json_supported (map fst ?nan)
       (log_entry (Span_SpanContext (SpanFromContext (Some 0)) ?w) (clock ?w)
          LevelInfo ''hello'' ?nan)"
    by (simp add: json_supported_log_entry attrsToMap_def n)
  have c1: "new_events 0 ?w (Logger_log (Some 0) LevelInfo ''hello'' [] ?w) =
              [log_event LevelInfo ''hello'' []]"
    using t1 [THEN conjunct1, THEN mp, OF h1] by (elim conjE)
  have c2: "new_lines ''app.log'' ?w
              (StructuredLogger_write (JSONLogger ?w) (Some 0) LevelInfo ''hello'' [] ?w) =
            (if json_supported (map fst ([] :: KeyValue list))
                  (log_entry (Span_SpanContext (SpanFromContext (Some 0)) ?w) (clock ?w)
                     LevelInfo ''hello'' []) \<and> disk_ok ?w
             then [log_entry (Span_SpanContext (SpanFromContext (Some 0)) ?w) (clock ?w)
                     LevelInfo ''hello'' []]
             else [])"
    using t1 [THEN conjunct2, THEN conjunct2, THEN conjunct1, THEN mp, OF h2]
    by (elim conjE)
  have c7: "StructuredLogger_write (JSONLogger ?w) (Some 0) LevelInfo ''hello'' ?nan ?w = ?w"
    using t3 [THEN conjunct2, THEN conjunct2, THEN conjunct2, THEN conjunct1, THEN mp,
        OF conjI [OF h2 h7]] .
  have c3: "log_entry ?sc 0 LevelInfo ''hello'' [] ''trace_id'' =
              Some (AnyString (TraceID_String (TraceID ?sc)))"
    using t1 [THEN conjunct2, THEN conjunct2, THEN conjunct2, THEN conjunct2, THEN conjunct2,
        THEN conjunct2, THEN conjunct1, THEN mp, OF h3]
    by (elim conjE)
  have c4: "new_console ?d (Logger_log None LevelInfo ''hello'' [] ?d) =
              [fallback_line LevelInfo ''hello'' []]"
    using t2 [THEN conjunct2, THEN conjunct1, THEN mp, OF h4] by (elim conjE)
  have c5: "new_console ?d
              (StructuredLogger_write (JSONLogger ?d) None LevelInfo ''hello'' [] ?d) =
              [fallback_line LevelInfo ''hello'' []]"
    using t2 [THEN conjunct2, THEN conjunct2, THEN conjunct2, THEN conjunct2, THEN conjunct2,
        THEN conjunct1, THEN mp, OF h5]
    by (elim conjE)
  have c6: "log_entry noopSpanContext 0 LevelInfo ''hello'' [] ''trace_id'' = None"
    using t2 [THEN conjunct2, THEN conjunct2, THEN conjunct2, THEN conjunct2, THEN conjunct2,
        THEN conjunct2, THEN conjunct2, THEN mp, OF h6]
    by (elim conjE)
  have d2: "new_lines ''app.log'' ?w
              (StructuredLogger_write (JSONLogger ?w) (Some 0) LevelInfo ''hello'' [] ?w) =
             [log_entry ?sc 0 LevelInfo ''hello'' []]"
    unfolding c2
    by (simp add: order_request_def inbound_boot SpanFromContext_def Span_SpanContext_def
          json_supported_log_entry)
  from c3 have d3: "log_entry ?sc 0 LevelInfo ''hello'' [] ''trace_id'' =
              Some (AnyString (TraceID_String 2))" by simp
  show ?thesis
    by (intro conjI) (use h1 c1 h2 d2 h3 d3 h4 c4 h5 c5 h6 c6 h7 c7 in \<open>simp_all only: simp_thms\<close>)
qed

section \<open>The inventory handler\<close>

lemma Write_result:
  "fst (Write b rw) = write_error rw"
  "status_code (snd (Write b rw)) = (if status_code rw = None then Some 200 else status_code rw)"
  "header (snd (Write b rw)) = header rw"
  "body (snd (Write b rw)) = (case write_error rw of None \<Rightarrow> body rw @ [b] | Some e \<Rightarrow> body rw)"
  by (simp_all add: Write_def WriteHeader_def Let_def split: option.split)

lemma Header_Set_fields:
  "write_error (Header_Set k v rw) = write_error rw"
  "status_code (Header_Set k v rw) = status_code rw"
  "body (Header_Set k v rw) = body rw"
  "header (Header_Set k v rw) = (header rw)(k \<mapsto> v)"
  by (simp_all add: Header_Set_def)

lemma CheckInventoryHandler_response:
  "fst (CheckInventoryHandler rw r w) =
     snd (Write (encode_InventoryResponse
                   \<lparr>Status = ''success'', Message = ''Inventory checked successfully'',
                    DelayMS = drawn 0 601 w + 200\<rparr>)
            (Header_Set ''Content-Type'' ''application/json'' rw))"
  by (simp add: CheckInventoryHandler_def Let_def split_beta rand_IntN_fst drawn_simps
      split: option.split)

lemma span_update_SpanContext:
  assumes "\<And>s. span_context (g s) = span_context s"
  shows "Span_SpanContext sp (span_update sp' g w) = Span_SpanContext sp w"
  using assms
  by (auto simp add: Span_SpanContext_def span_update_def nth_list_update
      split: option.split)

lemma Logger_log_SpanContext:
  "Span_SpanContext sp (Logger_log ctx level message attrs w) = Span_SpanContext sp w"
proof (cases "IsValid (Span_SpanContext (SpanFromContext ctx) w)")
  case True
  then have "Logger_log ctx level message attrs w =
      Span_AddEvent (SpanFromContext ctx) ''log''
        (attribute_String ''log.level'' level # attribute_String ''log.message'' message # attrs) w"
    by (simp add: Logger_log_def Let_def)
  then show ?thesis
    by (simp add: Span_AddEvent_def span_update_SpanContext)
next
  case False
  show ?thesis
    unfolding Logger_log_fallback [OF False] by (rule Span_SpanContext_frame) simp
qed

lemma StructuredLogger_write_console:
  "console (StructuredLogger_write l ctx level message attrs w) =
     (case encoder l of
        None \<Rightarrow> console w @ [fallback_line level message attrs]
      | Some p \<Rightarrow> console w)"
  by (simp add: StructuredLogger_write_fallback StructuredLogger_write_file split: option.split)

lemma StructuredLogger_write_SpanContext:
  "Span_SpanContext sp (StructuredLogger_write l ctx level message attrs w) =
     Span_SpanContext sp w"
  by (rule Span_SpanContext_frame) (simp add: frames)

lemma delay_nonneg: "max 0 (x mod 601 + 200) = x mod 601 + (200::int)"
  by (simp add: max_def)

lemma CheckInventoryHandler_events:
  assumes "Context r = Some h" and "h < length (spans w)" and "recording (spans w ! h)"
  shows "new_events h w (snd (CheckInventoryHandler rw r w)) =
           log_event LevelInfo ''Inventory checked successfully''
             [(''inventory.check.delay_ms'', INT64 (drawn 0 601 w + 200))] #
           (case write_error rw of
              None \<Rightarrow> []
            | Some e \<Rightarrow> [log_event LevelError ''Error encoding inventory response''
                           [(''error.reason'', STRING e)]])"
  using assms
  by (simp add: CheckInventoryHandler_def Let_def split_beta rand_IntN_fst drawn_simps
        log_wrappers Logger_log_at frames new_events_def Write_result Header_Set_fields
        recording_def attribute_Int_def attribute_String_def
      split: option.split)

lemma CheckInventoryHandler_console:
  "new_console w (snd (CheckInventoryHandler rw r w)) =
     (if IsValid (Span_SpanContext (Context r) w) then []
      else [fallback_line LevelInfo ''Inventory checked successfully''
              [(''inventory.check.delay_ms'', INT64 (drawn 0 601 w + 200))]]) @
     (case encoder (JSONLogger w) of
        None \<Rightarrow> [fallback_line LevelInfo ''Inventory checked successfully''
                    [(''inventory.check.delay_ms'', INT64 (drawn 0 601 w + 200))]]
      | Some p \<Rightarrow> []) @
     (case write_error rw of
        None \<Rightarrow> []
      | Some e \<Rightarrow>
          (if IsValid (Span_SpanContext (Context r) w) then []
           else [fallback_line LevelError ''Error encoding inventory response''
                   [(''error.reason'', STRING e)]]) @
          (case encoder (JSONLogger w) of
             None \<Rightarrow> [fallback_line LevelError ''Error encoding inventory response''
                         [(''error.reason'', STRING e)]]
           | Some p \<Rightarrow> []))"
proof -
  have sc: "Span_SpanContext (Context r) (time_Sleep d (snd (rand_IntN n w))) =
              Span_SpanContext (Context r) w" for d n
    by (rule Span_SpanContext_frame) (simp add: frames)
  show ?thesis
    by (simp add: CheckInventoryHandler_def Let_def split_beta rand_IntN_fst drawn_simps
          log_wrappers frames new_console_def Write_result Header_Set_fields
          Logger_log_console StructuredLogger_write_console Logger_log_SpanContext
          StructuredLogger_write_SpanContext sc fallback_line_def attribute_Int_def
          attribute_String_def
        split: option.split)
qed

lemma CheckInventoryHandler_lines:
  assumes "encoder (JSONLogger w) = Some p" and "disk_ok w"
  shows "new_lines p w (snd (CheckInventoryHandler rw r w)) =
           log_entry (Span_SpanContext (Context r) w) (clock w + (drawn 0 601 w + 200))
             LevelInfo ''Inventory checked successfully''
             [(''inventory.check.delay_ms'', INT64 (drawn 0 601 w + 200))] #
           (case write_error rw of
              None \<Rightarrow> []
            | Some e \<Rightarrow>
                [log_entry (Span_SpanContext (Context r) w) (clock w + (drawn 0 601 w + 200))
                   LevelError ''Error encoding inventory response''
                   [(''error.reason'', STRING e)]])"
proof -
  have sc: "Span_SpanContext (Context r) (time_Sleep d (snd (rand_IntN n w))) =
              Span_SpanContext (Context r) w" for d n
    by (rule Span_SpanContext_frame) (simp add: frames)
  have sc2: "Span_SpanContext sp (u\<lparr>files := fs\<rparr>) = Span_SpanContext sp u" for sp u fs
    by (rule Span_SpanContext_frame) simp
  show ?thesis
    using assms
    by (simp add: CheckInventoryHandler_def Let_def split_beta rand_IntN_fst drawn_simps
          log_wrappers frames new_lines_def lines_def Write_result Header_Set_fields
          StructuredLogger_write_file Logger_log_SpanContext sc sc2 SpanFromContext_def
          delay_nonneg attribute_Int_def attribute_String_def json_supported_log_entry
          attrsToMap_def
        split: option.split)
qed

section \<open>The inventory delay\<close>

lemma inventory_request_world:
  "fst inventory_request = \<lparr>Context = Some 0\<rparr>"
  "spans (snd inventory_request) =
     [\<lparr>span_name = ''GET /checkInventory'', parent_id = None,
       span_context = \<lparr>TraceID = 2, SpanID = 1\<rparr>,
       status = Unset, status_message = [], recorded_error = None, events = [],
       start_time = 0, end_time = None\<rparr>]"
  "JSONLogger (snd inventory_request) =
     \<lparr>logger_f = Some ''app.log'', encoder = Some ''app.log''\<rparr>"
  "disk_ok (snd inventory_request)"
  "effects (snd inventory_request) = []"
  "rand_pos (snd inventory_request) = 0"
  by (simp_all add: inventory_request_def inbound_boot)

text \<open>
  Claim C6 fails as stated: when the generator returns 600, the delay is 800 ms, above
  the bound of 799.
\<close>

theorem checkInventory_delay_counterexample:
  "new_effects (with_draws [600] (snd inventory_request))
     (snd (CheckInventoryHandler fresh_writer (fst inventory_request)
             (with_draws [600] (snd inventory_request)))) =
     [Draw 601 600, Sleep 800] \<and>
   \<not> (800::int) \<le> 799"
  by (simp add: new_effects_def CheckInventoryHandler_frame with_draws_frame drawn_with_draws
        inventory_request_world)

text \<open>
  Claim C6 as amended. The delay of a \<^verbatim>\<open>checkInventory\<close> request is one draw from 200 to
  800 ms inclusive (both ends are reached), slept once; the handler has no failure
  branch: it sets the JSON content type, answers a fresh writer with status 200, and
  on a healthy connection writes the body with status, message and delay_ms; the Info
  record with the delay attribute is the first thing it adds to the span of a context
  with a valid open span, to the console when the context has no valid span, and to
  the log file when the file is open and the disk takes the write.
\<close>

theorem checkInventory_delay_and_response:
  "200 \<le> drawn 0 601 w + 200 \<and> drawn 0 601 w + 200 \<le> 800 \<and>
   drawn 0 601 (with_draws [0] w) + 200 = 200 \<and>
   drawn 0 601 (with_draws [600] w) + 200 = 800 \<and>
   new_effects w (snd (CheckInventoryHandler rw r w)) =
     [Draw 601 (drawn 0 601 w), Sleep (drawn 0 601 w + 200)] \<and>
   header (fst (CheckInventoryHandler rw r w)) ''Content-Type'' = Some ''application/json'' \<and>
   (status_code rw = None \<longrightarrow>
      status_code (fst (CheckInventoryHandler rw r w)) = Some 200) \<and>
   (write_error rw = None \<longrightarrow>
      body (fst (CheckInventoryHandler rw r w)) =
        body rw @ [JSON [(''status'', JString ''success''),
                         (''message'', JString ''Inventory checked successfully''),
                         (''delay_ms'', JInt (drawn 0 601 w + 200))]]) \<and>
   (Context r = Some h \<and> h < length (spans w) \<and> recording (spans w ! h) \<longrightarrow>
      hd (new_events h w (snd (CheckInventoryHandler rw r w))) =
        \<lparr>event_name = ''log'',
         event_attrs = [(''log.level'', STRING ''INFO''),
                        (''log.message'', STRING ''Inventory checked successfully''),
                        (''inventory.check.delay_ms'', INT64 (drawn 0 601 w + 200))]\<rparr>) \<and>
   (\<not> IsValid (Span_SpanContext (Context r) w) \<longrightarrow>
      hd (new_console w (snd (CheckInventoryHandler rw r w))) =
        (''[%s] %s %v'', [ArgString ''INFO'', ArgString ''Inventory checked successfully'',
           ArgAttrs [(''inventory.check.delay_ms'', INT64 (drawn 0 601 w + 200))]])) \<and>
   (encoder (JSONLogger w) = Some p \<and> disk_ok w \<longrightarrow>
      hd (new_lines p w (snd (CheckInventoryHandler rw r w))) ''level'' =
        Some (AnyString ''INFO'') \<and>
      hd (new_lines p w (snd (CheckInventoryHandler rw r w))) ''message'' =
        Some (AnyString ''Inventory checked successfully'') \<and>
      hd (new_lines p w (snd (CheckInventoryHandler rw r w))) ''attributes'' =
        Some (AnyMap [''inventory.check.delay_ms'' \<mapsto> AnyInt64 (drawn 0 601 w + 200)]))"
proof (intro conjI impI)
  show "200 \<le> drawn 0 601 w + 200" and "drawn 0 601 w + 200 \<le> 800"
    by (simp_all add: drawn_def)
  show "drawn 0 601 (with_draws [0] w) + 200 = 200"
    and "drawn 0 601 (with_draws [600] w) + 200 = 800"
    by (simp_all add: drawn_with_draws)
  show "new_effects w (snd (CheckInventoryHandler rw r w)) =
     [Draw 601 (drawn 0 601 w), Sleep (drawn 0 601 w + 200)]"
    by (simp add: new_effects_def CheckInventoryHandler_frame)
  show "header (fst (CheckInventoryHandler rw r w)) ''Content-Type'' = Some ''application/json''"
    by (simp add: CheckInventoryHandler_response Write_result Header_Set_fields)
next
  assume "status_code rw = None"
  then show "status_code (fst (CheckInventoryHandler rw r w)) = Some 200"
    by (simp add: CheckInventoryHandler_response Write_result Header_Set_fields)
next
  assume "write_error rw = None"
  then show "body (fst (CheckInventoryHandler rw r w)) =
        body rw @ [JSON [(''status'', JString ''success''),
                         (''message'', JString ''Inventory checked successfully''),
                         (''delay_ms'', JInt (drawn 0 601 w + 200))]]"
    by (simp add: CheckInventoryHandler_response Write_result Header_Set_fields
          encode_InventoryResponse_def)
next
  assume "Context r = Some h \<and> h < length (spans w) \<and> recording (spans w ! h)"
  then show "hd (new_events h w (snd (CheckInventoryHandler rw r w))) =
        \<lparr>event_name = ''log'',
         event_attrs = [(''log.level'', STRING ''INFO''),
                        (''log.message'', STRING ''Inventory checked successfully''),
                        (''inventory.check.delay_ms'', INT64 (drawn 0 601 w + 200))]\<rparr>"
    by (simp add: CheckInventoryHandler_events log_event_def LevelInfo_def)
next
  assume "\<not> IsValid (Span_SpanContext (Context r) w)"
  then show "hd (new_console w (snd (CheckInventoryHandler rw r w))) =
        (''[%s] %s %v'', [ArgString ''INFO'', ArgString ''Inventory checked successfully'',
           ArgAttrs [(''inventory.check.delay_ms'', INT64 (drawn 0 601 w + 200))]])"
    by (simp add: CheckInventoryHandler_console fallback_line_def LevelInfo_def)
next
  assume a: "encoder (JSONLogger w) = Some p \<and> disk_ok w"
  then have l: "hd (new_lines p w (snd (CheckInventoryHandler rw r w))) =
      log_entry (Span_SpanContext (Context r) w) (clock w + (drawn 0 601 w + 200))
        LevelInfo ''Inventory checked successfully''
        [(''inventory.check.delay_ms'', INT64 (drawn 0 601 w + 200))]"
    by (simp add: CheckInventoryHandler_lines)
  show "hd (new_lines p w (snd (CheckInventoryHandler rw r w))) ''level'' =
        Some (AnyString ''INFO'')"
    unfolding l by (simp add: log_entry_fields LevelInfo_def)
  show "hd (new_lines p w (snd (CheckInventoryHandler rw r w))) ''message'' =
        Some (AnyString ''Inventory checked successfully'')"
    unfolding l by (simp add: log_entry_fields)
  show "hd (new_lines p w (snd (CheckInventoryHandler rw r w))) ''attributes'' =
        Some (AnyMap [''inventory.check.delay_ms'' \<mapsto> AnyInt64 (drawn 0 601 w + 200)])"
    unfolding l by (simp add: log_entry_fields attrsToMap_def)
qed


theorem checkInventory_delay_and_response_witness:
  "status_code fresh_writer = None \<and> write_error fresh_writer = None \<and>
   (Context (fst inventory_request) = Some 0 \<and>
    0 < length (spans (with_draws [600] (snd inventory_request))) \<and>
    recording (spans (with_draws [600] (snd inventory_request)) ! 0)) \<and>
   (encoder (JSONLogger (with_draws [600] (snd inventory_request))) = Some ''app.log'' \<and>
    disk_ok (with_draws [600] (snd inventory_request))) \<and>
   \<not> IsValid (Span_SpanContext (Context \<lparr>Context = None\<rparr>)
                (with_draws [600] (snd inventory_request))) \<and>
   status_code (fst (CheckInventoryHandler fresh_writer (fst inventory_request)
                       (with_draws [600] (snd inventory_request)))) = Some 200 \<and>
   body (fst (CheckInventoryHandler fresh_writer (fst inventory_request)
                (with_draws [600] (snd inventory_request)))) =
     [JSON [(''status'', JString ''success''),
            (''message'', JString ''Inventory checked successfully''),
            (''delay_ms'', JInt 800)]] \<and>
   hd (new_events 0 (with_draws [600] (snd inventory_request))
         (snd (CheckInventoryHandler fresh_writer (fst inventory_request)
                 (with_draws [600] (snd inventory_request))))) =
     \<lparr>event_name = ''log'',
      event_attrs = [(''log.level'', STRING ''INFO''),
                     (''log.message'', STRING ''Inventory checked successfully''),
                     (''inventory.check.delay_ms'', INT64 800)]\<rparr> \<and>
   hd (new_lines ''app.log'' (with_draws [600] (snd inventory_request))
         (snd (CheckInventoryHandler fresh_writer (fst inventory_request)
                 (with_draws [600] (snd inventory_request))))) ''level'' =
     Some (AnyString ''INFO'') \<and>
   hd (new_console (with_draws [600] (snd inventory_request))
         (snd (CheckInventoryHandler fresh_writer \<lparr>Context = None\<rparr>
                 (with_draws [600] (snd inventory_request))))) =
     (''[%s] %s %v'', [ArgString ''INFO'', ArgString ''Inventory checked successfully'',
        ArgAttrs [(''inventory.check.delay_ms'', INT64 800)]])"
proof -
  let ?w = "with_draws [600] (snd inventory_request)"
  let ?r = "fst inventory_request"
  note t1 = checkInventory_delay_and_response [where w = ?w and rw = fresh_writer and r = ?r
      and h = 0 and p = "''app.log''"]
  note t2 = checkInventory_delay_and_response [where w = ?w and rw = fresh_writer
      and r = "\<lparr>Context = None\<rparr>" and h = 0 and p = "''app.log''"]
  have d: "drawn 0 601 ?w + 200 = 800"
    by (simp add: drawn_with_draws)
  have h1: "status_code fresh_writer = None" and h2: "write_error fresh_writer = None"
    and b: "body fresh_writer = []"
    by (simp_all add: fresh_writer_def)
  have h3: "Context ?r = Some 0 \<and> 0 < length (spans ?w) \<and> recording (spans ?w ! 0)"
    by (simp add: with_draws_frame inventory_request_world recording_def IsValid_def)
  have h4: "encoder (JSONLogger ?w) = Some ''app.log'' \<and> disk_ok ?w"
    by (simp add: with_draws_frame inventory_request_world)
  have h5: "\<not> IsValid (Span_SpanContext (Context \<lparr>Context = None\<rparr>) ?w)"
    by (simp add: Span_SpanContext_def noopSpanContext_def IsValid_def)
  have c1: "status_code (fst (CheckInventoryHandler fresh_writer ?r ?w)) = Some 200"
    using t1 h1 by blast
  have c2: "body (fst (CheckInventoryHandler fresh_writer ?r ?w)) =
      body fresh_writer @ [JSON [(''status'', JString ''success''),
                         (''message'', JString ''Inventory checked successfully''),
                         (''delay_ms'', JInt (drawn 0 601 ?w + 200))]]"
    using t1 h2 by blast
  have c3: "hd (new_events 0 ?w (snd (CheckInventoryHandler fresh_writer ?r ?w))) =
        \<lparr>event_name = ''log'',
         event_attrs = [(''log.level'', STRING ''INFO''),
                        (''log.message'', STRING ''Inventory checked successfully''),
                        (''inventory.check.delay_ms'', INT64 (drawn 0 601 ?w + 200))]\<rparr>"
    using t1 h3 by blast
  have c4: "hd (new_lines ''app.log'' ?w (snd (CheckInventoryHandler fresh_writer ?r ?w)))
              ''level'' = Some (AnyString ''INFO'')"
    using t1 h4 by blast
  have c5: "hd (new_console ?w (snd (CheckInventoryHandler fresh_writer \<lparr>Context = None\<rparr> ?w))) =
        (''[%s] %s %v'', [ArgString ''INFO'', ArgString ''Inventory checked successfully'',
           ArgAttrs [(''inventory.check.delay_ms'', INT64 (drawn 0 601 ?w + 200))]])"
    using t2 h5 by blast
  show ?thesis
    using h1 h2 h3 h4 h5 c1 c2 [unfolded d b] c3 [unfolded d] c4 c5 [unfolded d] by simp
qed

section \<open>One delay for the sleep, the log and the response\<close>

lemma CheckInventoryHandler_rand_pos:
  "rand_pos (snd (CheckInventoryHandler rw r w)) = Suc (rand_pos w)"
  by (simp add: CheckInventoryHandler_def Let_def split_beta frames log_wrappers
      split: option.split)

text \<open>
  Claim C10. A \<^verbatim>\<open>checkInventory\<close> request consumes exactly one value of the generator,
  and the delay made from it is the one value that is slept, that the
  \<^verbatim>\<open>inventory.check.delay_ms\<close> attribute of the Info record carries in every sink (span
  event, log file line, console fallback), and that the \<^verbatim>\<open>delay_ms\<close> field of the
  response carries.
\<close>

theorem checkInventory_one_delay:
  "rand_pos (snd (CheckInventoryHandler rw r w)) = Suc (rand_pos w) \<and>
   new_effects w (snd (CheckInventoryHandler rw r w)) =
     [Draw 601 (drawn 0 601 w), Sleep (drawn 0 601 w + 200)] \<and>
   (write_error rw = None \<longrightarrow>
      (case last (body (fst (CheckInventoryHandler rw r w))) of
         JSON kvs \<Rightarrow> map_of kvs ''delay_ms''
       | Text x \<Rightarrow> None) = Some (JInt (drawn 0 601 w + 200))) \<and>
   (Context r = Some h \<and> h < length (spans w) \<and> recording (spans w ! h) \<longrightarrow>
      map_of (event_attrs (hd (new_events h w (snd (CheckInventoryHandler rw r w)))))
        ''inventory.check.delay_ms'' = Some (INT64 (drawn 0 601 w + 200))) \<and>
   (encoder (JSONLogger w) = Some p \<and> disk_ok w \<longrightarrow>
      (case hd (new_lines p w (snd (CheckInventoryHandler rw r w))) ''attributes'' of
         Some (AnyMap m) \<Rightarrow> m ''inventory.check.delay_ms''
       | _ \<Rightarrow> None) = Some (AnyInt64 (drawn 0 601 w + 200))) \<and>
   (\<not> IsValid (Span_SpanContext (Context r) w) \<or> encoder (JSONLogger w) = None \<longrightarrow>
      hd (new_console w (snd (CheckInventoryHandler rw r w))) =
        (''[%s] %s %v'', [ArgString ''INFO'', ArgString ''Inventory checked successfully'',
           ArgAttrs [(''inventory.check.delay_ms'', INT64 (drawn 0 601 w + 200))]]))"
proof (intro conjI impI)
  show "rand_pos (snd (CheckInventoryHandler rw r w)) = Suc (rand_pos w)"
    by (rule CheckInventoryHandler_rand_pos)
  show "new_effects w (snd (CheckInventoryHandler rw r w)) =
     [Draw 601 (drawn 0 601 w), Sleep (drawn 0 601 w + 200)]"
    by (simp add: new_effects_def CheckInventoryHandler_frame)
next
  assume "write_error rw = None"
  then show "(case last (body (fst (CheckInventoryHandler rw r w))) of
         JSON kvs \<Rightarrow> map_of kvs ''delay_ms''
       | Text x \<Rightarrow> None) = Some (JInt (drawn 0 601 w + 200))"
    by (simp add: CheckInventoryHandler_response Write_result Header_Set_fields
          encode_InventoryResponse_def)
next
  assume "Context r = Some h \<and> h < length (spans w) \<and> recording (spans w ! h)"
  then show "map_of (event_attrs (hd (new_events h w (snd (CheckInventoryHandler rw r w)))))
        ''inventory.check.delay_ms'' = Some (INT64 (drawn 0 601 w + 200))"
    by (simp add: CheckInventoryHandler_events log_event_def)
next
  assume "encoder (JSONLogger w) = Some p \<and> disk_ok w"
  then show "(case hd (new_lines p w (snd (CheckInventoryHandler rw r w))) ''attributes'' of
         Some (AnyMap m) \<Rightarrow> m ''inventory.check.delay_ms''
       | _ \<Rightarrow> None) = Some (AnyInt64 (drawn 0 601 w + 200))"
    by (simp add: CheckInventoryHandler_lines log_entry_fields attrsToMap_def)
next
  assume "\<not> IsValid (Span_SpanContext (Context r) w) \<or> encoder (JSONLogger w) = None"
  then show "hd (new_console w (snd (CheckInventoryHandler rw r w))) =
        (''[%s] %s %v'', [ArgString ''INFO'', ArgString ''Inventory checked successfully'',
           ArgAttrs [(''inventory.check.delay_ms'', INT64 (drawn 0 601 w + 200))]])"
    by (auto simp add: CheckInventoryHandler_console fallback_line_def LevelInfo_def
        split: option.split)
qed

theorem checkInventory_one_delay_witness:
  "write_error fresh_writer = None \<and>
   (Context (fst inventory_request) = Some 0 \<and>
    0 < length (spans (with_draws [417] (snd inventory_request))) \<and>
    recording (spans (with_draws [417] (snd inventory_request)) ! 0)) \<and>
   (encoder (JSONLogger (with_draws [417] (snd inventory_request))) = Some ''app.log'' \<and>
    disk_ok (with_draws [417] (snd inventory_request))) \<and>
   \<not> IsValid (Span_SpanContext (Context \<lparr>Context = None\<rparr>)
                (with_draws [417] (logging_init boot_no_log_file))) \<and>
   encoder (JSONLogger (with_draws [417] (logging_init boot_no_log_file))) = None \<and>
   new_effects (with_draws [417] (snd inventory_request))
     (snd (CheckInventoryHandler fresh_writer (fst inventory_request)
             (with_draws [417] (snd inventory_request)))) =
     [Draw 601 417, Sleep 617] \<and>
   (case last (body (fst (CheckInventoryHandler fresh_writer (fst inventory_request)
                            (with_draws [417] (snd inventory_request))))) of
      JSON kvs \<Rightarrow> map_of kvs ''delay_ms''
    | Text x \<Rightarrow> None) = Some (JInt 617) \<and>
   map_of (event_attrs (hd (new_events 0 (with_draws [417] (snd inventory_request))
       (snd (CheckInventoryHandler fresh_writer (fst inventory_request)
               (with_draws [417] (snd inventory_request)))))))
     ''inventory.check.delay_ms'' = Some (INT64 617) \<and>
   (case hd (new_lines ''app.log'' (with_draws [417] (snd inventory_request))
        (snd (CheckInventoryHandler fresh_writer (fst inventory_request)
                (with_draws [417] (snd inventory_request))))) ''attributes'' of
      Some (AnyMap m) \<Rightarrow> m ''inventory.check.delay_ms''
    | _ \<Rightarrow> None) = Some (AnyInt64 617) \<and>
   hd (new_console (with_draws [417] (logging_init boot_no_log_file))
         (snd (CheckInventoryHandler fresh_writer \<lparr>Context = None\<rparr>
                 (with_draws [417] (logging_init boot_no_log_file))))) =
     (''[%s] %s %v'', [ArgString ''INFO'', ArgString ''Inventory checked successfully'',
        ArgAttrs [(''inventory.check.delay_ms'', INT64 617)]])"
proof -
  let ?w = "with_draws [417] (snd inventory_request)"
  let ?r = "fst inventory_request"
  let ?d = "with_draws [417] (logging_init boot_no_log_file)"
  note t1 = checkInventory_one_delay [where w = ?w and rw = fresh_writer and r = ?r
      and h = 0 and p = "''app.log''"]
  note t2 = checkInventory_one_delay [where w = ?d and rw = fresh_writer
      and r = "\<lparr>Context = None\<rparr>" and h = 0 and p = "''app.log''"]
  have d1: "drawn 0 601 ?w = 417" and d2: "drawn 0 601 ?d = 417"
    by (simp_all add: drawn_with_draws)
  have h2: "write_error fresh_writer = None"
    by (simp add: fresh_writer_def)
  have h3: "Context ?r = Some 0 \<and> 0 < length (spans ?w) \<and> recording (spans ?w ! 0)"
    by (simp add: with_draws_frame inventory_request_world recording_def IsValid_def)
  have h4: "encoder (JSONLogger ?w) = Some ''app.log'' \<and> disk_ok ?w"
    by (simp add: with_draws_frame inventory_request_world)
  have h5a: "\<not> IsValid (Span_SpanContext (Context \<lparr>Context = None\<rparr>) ?d)"
    by (simp add: Span_SpanContext_def noopSpanContext_def IsValid_def)
  have h5b: "encoder (JSONLogger ?d) = None"
    by (simp add: with_draws_frame logging_init_boot_no_log_file)
  from h5a have h5: "\<not> IsValid (Span_SpanContext (Context \<lparr>Context = None\<rparr>) ?d) \<or>
            encoder (JSONLogger ?d) = None" ..
  have c0: "new_effects ?w (snd (CheckInventoryHandler fresh_writer ?r ?w)) =
              [Draw 601 (drawn 0 601 ?w), Sleep (drawn 0 601 ?w + 200)]"
    using t1 by blast
  have c2: "(case last (body (fst (CheckInventoryHandler fresh_writer ?r ?w))) of
         JSON kvs \<Rightarrow> map_of kvs ''delay_ms''
       | Text x \<Rightarrow> None) = Some (JInt (drawn 0 601 ?w + 200))"
    using t1 h2 by blast
  have c3: "map_of (event_attrs (hd (new_events 0 ?w
               (snd (CheckInventoryHandler fresh_writer ?r ?w)))))
        ''inventory.check.delay_ms'' = Some (INT64 (drawn 0 601 ?w + 200))"
    using t1 h3 by blast
  have c4: "(case hd (new_lines ''app.log'' ?w
               (snd (CheckInventoryHandler fresh_writer ?r ?w))) ''attributes'' of
         Some (AnyMap m) \<Rightarrow> m ''inventory.check.delay_ms''
       | _ \<Rightarrow> None) = Some (AnyInt64 (drawn 0 601 ?w + 200))"
    using t1 h4 by blast
  have c5: "hd (new_console ?d
               (snd (CheckInventoryHandler fresh_writer \<lparr>Context = None\<rparr> ?d))) =
        (''[%s] %s %v'', [ArgString ''INFO'', ArgString ''Inventory checked successfully'',
           ArgAttrs [(''inventory.check.delay_ms'', INT64 (drawn 0 601 ?d + 200))]])"
    using t2 h5 by blast
  show ?thesis
    using h2 h3 h4 h5a h5b c0 [unfolded d1] c2 [unfolded d1] c3 [unfolded d1] c4 [unfolded d1]
      c5 [unfolded d2]
    by simp
qed

section \<open>The response of the failure branches\<close>

lemma failure_response:
  "fst (handleDBError fresh_writer r w) =
     \<lparr>header = [''Content-Type'' \<mapsto> ''text/plain; charset=utf-8'',
                 ''X-Content-Type-Options'' \<mapsto> ''nosniff''],
      status_code = Some 500,
      body = [Text (''Internal Server Error'' @ [CHR 0x0A])],
      write_error = None\<rparr>"
  "fst (handlePaymentError fresh_writer r w) = fst (handleDBError fresh_writer r w)"
  by (simp_all add: handleDBError_frame handlePaymentError_frame http_Error_def Let_def
        Header_Set_def WriteHeader_def Write_def fresh_writer_def StatusInternalServerError_def)

end
